theory Spec2Isabelle
  imports Complex_Main "HOL-Library.AList"
begin

section \<open>Python and NumPy primitives used by \<open>hybrid/clustering.py\<close>\<close>

text \<open>
  The clustering module computes with NumPy \<open>float64\<close> arrays. Throughout this
  development a float is an exact real number: rounding, infinities and NaN are not part
  of the model. One-dimensional arrays are lists, two-dimensional arrays are lists of
  rows. Every exception the modelled code can raise is a value of type \<open>error\<close>.
\<close>

datatype error =
  KeyError | IndexError | ValueError | AttributeError | ZeroDivisionError | TypeError

type_synonym vec = "real list"
type_synonym matrix = "real list list"

text \<open>\<open>ndarray.max()\<close> and \<open>ndarray.min()\<close> over all entries; both raise
  \<open>ValueError\<close> on an array without entries.\<close>

definition np_max :: "real list \<Rightarrow> error + real" where
  "np_max xs = (case xs of [] \<Rightarrow> Inl ValueError | x # r \<Rightarrow> Inr (fold max r x))"

definition np_min :: "real list \<Rightarrow> error + real" where
  "np_min xs = (case xs of [] \<Rightarrow> Inl ValueError | x # r \<Rightarrow> Inr (fold min r x))"

text \<open>Python's substring test \<open>s in t\<close> on strings.\<close>

fun py_in :: "string \<Rightarrow> string \<Rightarrow> bool" where
  "py_in s [] = (s = [])"
| "py_in s (c # cs) = (take (length s) (c # cs) = s \<or> py_in s cs)"

text \<open>Sequencing of computations that may raise: the first error propagates.\<close>

definition bind_err :: "error + 'a \<Rightarrow> ('a \<Rightarrow> error + 'b) \<Rightarrow> error + 'b" where
  "bind_err m f = (case m of Inl e \<Rightarrow> Inl e | Inr v \<Rightarrow> f v)"

text \<open>Indexing \<open>xs[i]\<close> and item assignment \<open>xs[i] = v\<close> on a list or a
  one-dimensional array: a negative index counts from the end, an index out of range
  raises \<open>IndexError\<close>.\<close>

definition py_index :: "nat \<Rightarrow> int \<Rightarrow> nat option" where
  "py_index n i =
     (if 0 \<le> i \<and> i < int n then Some (nat i)
      else if i < 0 \<and> - int n \<le> i then Some (nat (int n + i))
      else None)"

definition nth_err :: "'a list \<Rightarrow> int \<Rightarrow> error + 'a" where
  "nth_err xs i =
     (case py_index (length xs) i of None \<Rightarrow> Inl IndexError | Some j \<Rightarrow> Inr (xs ! j))"

definition update_err :: "'a list \<Rightarrow> int \<Rightarrow> 'a \<Rightarrow> error + 'a list" where
  "update_err xs i v =
     (case py_index (length xs) i of None \<Rightarrow> Inl IndexError | Some j \<Rightarrow> Inr (xs[j := v]))"

text \<open>Running a list of fallible computations in order, stopping at the first error.\<close>

fun collect :: "(error + 'a) list \<Rightarrow> error + 'a list" where
  "collect [] = Inr []"
| "collect (x # xs) =
     (case x of Inl e \<Rightarrow> Inl e
      | Inr v \<Rightarrow> (case collect xs of Inl e \<Rightarrow> Inl e | Inr vs \<Rightarrow> Inr (v # vs)))"

text \<open>A loop \<open>for x in xs\<close> whose body updates a state and may raise.\<close>

fun fold_err :: "('a \<Rightarrow> 's \<Rightarrow> error + 's) \<Rightarrow> 'a list \<Rightarrow> 's \<Rightarrow> error + 's" where
  "fold_err f [] s = Inr s"
| "fold_err f (x # xs) s = (case f x s of Inl e \<Rightarrow> Inl e | Inr s' \<Rightarrow> fold_err f xs s')"

section \<open>The \<open>Clustering\<close> object\<close>

text \<open>
  The values stored in the dictionary \<open>self.clusters\<close>: Python scalars, NumPy arrays
  of dimension zero (what \<open>np.empty_like\<close> makes of a scalar), one-dimensional integer
  and float arrays, and float matrices. The dictionary is an association list in
  insertion order, the order in which \<open>keys()\<close> iterates; \<open>d[k] = v\<close> is
  \<^const>\<open>AList.update\<close>, which overwrites in place or appends. The entries have the
  types that the methods below give them; a lookup that expects one type and finds
  another is reported as \<open>TypeError\<close>, whatever Python would make of it.
\<close>

datatype cval =
  PyInt int | PyFloat real | PyBool bool
  | IntArray0 int | FloatArray0 real | BoolArray0 bool
  | IntArray "int list" | FloatArray "real list" | FloatMatrix matrix

type_synonym pydict = "(string \<times> cval) list"

definition getitem :: "pydict \<Rightarrow> string \<Rightarrow> error + cval" where
  "getitem d k = (case map_of d k of None \<Rightarrow> Inl KeyError | Some v \<Rightarrow> Inr v)"

definition get_int :: "pydict \<Rightarrow> string \<Rightarrow> error + int" where
  "get_int d k =
     bind_err (getitem d k) (\<lambda>v. case v of PyInt i \<Rightarrow> Inr i | _ \<Rightarrow> Inl TypeError)"

definition get_int_array :: "pydict \<Rightarrow> string \<Rightarrow> error + int list" where
  "get_int_array d k =
     bind_err (getitem d k) (\<lambda>v. case v of IntArray xs \<Rightarrow> Inr xs | _ \<Rightarrow> Inl TypeError)"

definition get_matrix :: "pydict \<Rightarrow> string \<Rightarrow> error + matrix" where
  "get_matrix d k =
     bind_err (getitem d k) (\<lambda>v. case v of FloatMatrix m \<Rightarrow> Inr m | _ \<Rightarrow> Inl TypeError)"

text \<open>The truth value that \<open>if\<close> and \<open>not\<close> take of a stored value; an array with
  more than one entry has none (\<open>ValueError\<close>).\<close>

fun truthy :: "cval \<Rightarrow> error + bool" where
  "truthy (PyInt i) = Inr (i \<noteq> 0)"
| "truthy (PyFloat x) = Inr (x \<noteq> 0)"
| "truthy (PyBool b) = Inr b"
| "truthy (IntArray0 i) = Inr (i \<noteq> 0)"
| "truthy (FloatArray0 x) = Inr (x \<noteq> 0)"
| "truthy (BoolArray0 b) = Inr b"
| "truthy (IntArray [i]) = Inr (i \<noteq> 0)"
| "truthy (FloatArray [x]) = Inr (x \<noteq> 0)"
| "truthy (FloatMatrix [[x]]) = Inr (x \<noteq> 0)"
| "truthy _ = Inl ValueError"

text \<open>
  The attribute \<open>self.daily_avg_dni\<close> holds a Python list after \<open>__init__\<close>, and a
  NumPy array or a NumPy scalar later.
\<close>

datatype dni_value = PyList "real list" | NdArray "real list" | Float64 real

text \<open>
  The attributes of \<open>Clustering.__init__\<close> that the modelled methods read or write.
  The dictionaries \<open>weights\<close> and \<open>divisions\<close> are association lists in insertion
  order, which is the order \<open>weights.items()\<close> iterates in.
\<close>

record clustering =
  ndays :: int
  weights :: "(string \<times> real) list"
  divisions :: "(string \<times> nat) list"
  n_cluster :: int
  Nmaxiter :: int
  sim_hard_partitions :: bool
  afp_preference_mult :: real
  afp_damping :: real
  afp_Nconverge :: int
  afp_enforce_Ncluster :: bool
  afp_enforce_Ncluster_tol :: int
  afp_enforce_Ncluster_maxiter :: int
  data :: matrix
  data_first :: vec
  data_last :: vec
  clusters :: pydict
  sim_start_days :: "int list"
  index_first :: int
  index_last :: int
  daily_avg_dni :: dni_value

text \<open>The object that \<open>Clustering.__init__\<close> builds (the attributes \<open>data\<close>,
  \<open>data_first\<close> and \<open>data_last\<close>, empty dictionaries there, are written before
  they are read).\<close>

definition Clustering :: clustering where
  "Clustering =
     \<lparr>ndays = 2, weights = [], divisions = [], n_cluster = 20, Nmaxiter = 200,
      sim_hard_partitions = True, afp_preference_mult = 1, afp_damping = 1 / 2,
      afp_Nconverge = 10, afp_enforce_Ncluster = True, afp_enforce_Ncluster_tol = 0,
      afp_enforce_Ncluster_maxiter = 50, data = [], data_first = [], data_last = [],
      clusters = [], sim_start_days = [], index_first = - 1, index_last = - 1,
      daily_avg_dni = PyList []\<rparr>"

section \<open>\<open>calculate_metrics\<close>: normalisation of a daily metric table\<close>

text \<open>
  Lines 304--307. \<open>daily_metrics[key]\<close> is the raw 365-by-\<open>n_div\<close> table:
  \<^verbatim>\<open>
  max_metric = daily_metrics[key].max()
  min_metric = daily_metrics[key].min()
  daily_metrics[key] = (daily_metrics[key] - min_metric) / max(1e-6, max_metric - min_metric)
  \<close>
\<close>

definition normalize_metric :: "matrix \<Rightarrow> error + matrix" where
  "normalize_metric tbl =
     (case np_max (concat tbl) of
        Inl e \<Rightarrow> Inl e
      | Inr max_metric \<Rightarrow>
          (case np_min (concat tbl) of
             Inl e \<Rightarrow> Inl e
           | Inr min_metric \<Rightarrow>
               Inr (map (map (\<lambda>x. (x - min_metric) / max (1 / 10 ^ 6) (max_metric - min_metric)))
                      tbl)))"

section \<open>\<open>calculate_metrics\<close>: feature rows for groups of days\<close>

text \<open>
  The days a group starting at day \<open>d1\<close> reads for metric \<open>name\<close> (lines 314--319).
\<close>

definition group_days :: "int \<Rightarrow> int \<Rightarrow> string \<Rightarrow> int list" where
  "group_days nd d1 name =
     (if py_in ''_prev'' name then [d1 - 1]
      else if py_in ''_next'' name then [d1 + nd]
      else map (\<lambda>i. d1 + i) [0..nd - 1])"

text \<open>
  One slice assignment of the loop in lines 323--328: the block of \<open>ndiv\<close> entries
  that day \<open>d\<close> contributes. A day inside the year contributes its row of the
  normalised table times the metric's weight (a row of another length than \<open>ndiv\<close>
  is broadcast when it has one entry and is a \<open>ValueError\<close> otherwise); a day
  outside the year contributes the constant \<open>-1e8\<close>.
\<close>

definition undefined_feature :: real where
  "undefined_feature = - (10 ^ 8)"

definition day_block ::
  "clustering \<Rightarrow> (string \<rightharpoonup> matrix) \<Rightarrow> string \<Rightarrow> nat \<Rightarrow> int \<Rightarrow> error + real list" where
  "day_block self daily_metrics name ndiv d =
     (if 0 \<le> d \<and> d < 365 then
        (case daily_metrics name of
           None \<Rightarrow> Inl KeyError
         | Some tbl \<Rightarrow>
             if length tbl \<le> nat d then Inl IndexError
             else (case map_of (weights self) name of
                     None \<Rightarrow> Inl KeyError
                   | Some w \<Rightarrow>
                       let row = map (\<lambda>x. x * w) (tbl ! nat d)
                       in if length row = ndiv then Inr row
                          else if length row = 1 then Inr (replicate ndiv (hd row))
                          else Inl ValueError))
      else Inr (replicate ndiv undefined_feature))"

definition get_data_for_group ::
  "clustering \<Rightarrow> (string \<rightharpoonup> matrix) \<Rightarrow> int \<Rightarrow> string \<Rightarrow> error + real list" where
  "get_data_for_group self daily_metrics d1 name =
     (let days = group_days (ndays self) d1 name
      in case map_of (divisions self) name of
           None \<Rightarrow> Inl KeyError
         | Some ndiv \<Rightarrow>
             (case collect (map (day_block self daily_metrics name ndiv) days) of
                Inl e \<Rightarrow> Inl e
              | Inr blocks \<Rightarrow> Inr (concat blocks)))"

text \<open>
  Line 331: \<open>n_group = int((365-2) / self.ndays)\<close>. The float quotient is truncated
  towards zero; for a quotient of 363 by an integer of magnitude at most 363 the float
  division cannot cross an integer, so the result is the exact truncated quotient.
\<close>

definition n_group_of :: "int \<Rightarrow> error + int" where
  "n_group_of nd =
     (if nd = 0 then Inl ZeroDivisionError
      else if 0 < nd then Inr (363 div nd)
      else Inr (- (363 div (- nd))))"

text \<open>
  Lines 263--272: the width \<open>n_metrics\<close> of the classification data, accumulated over
  the metrics of positive weight: \<open>n_div\<close> columns for a \<open>_prev\<close> or \<open>_next\<close>
  metric, \<open>n_div * ndays\<close> columns for any other.
\<close>

definition n_metrics_of :: "clustering \<Rightarrow> error + int" where
  "n_metrics_of self =
     fold_err (\<lambda>(key, wt) n_metrics.
                 if 0 < wt then
                   (case map_of (divisions self) key of
                      None \<Rightarrow> Inl KeyError
                    | Some n_div \<Rightarrow>
                        if py_in ''_prev'' key \<or> py_in ''_next'' key
                        then Inr (n_metrics + int n_div)
                        else Inr (n_metrics + int n_div * ndays self))
                 else Inr n_metrics)
       (weights self) 0"

text \<open>
  Lines 335--344, the body of the loop over \<open>weights.items()\<close> for one metric \<open>k\<close> of
  positive weight. The state is \<open>(self.data, self.data_first, self.data_last)\<close>, each
  filled up to the column offset \<open>j\<close>: the data of \<open>k\<close> is written at the columns
  \<open>j:j+n\<close> of every row, then of the two boundary vectors, and \<open>j\<close> advances by \<open>n\<close>.
  Whenever a row is written \<open>ndays\<close> is positive, and the data of each metric is as
  long as the share of \<open>n_metrics\<close> that lines 263--272 gave it, so the columns always
  fit and the filled part of a row is the data of the metrics so far, side by side.

  \<open>n\<close> is the length that the loop over the groups left behind. With no complete group
  that loop never ran, and \<open>n\<close> still holds the float that line 278 gave it (the number
  of time points per division of the last metric of positive weight): the right-hand
  side \<open>get_data_for_group(0, k)\<close> of line 342 is evaluated, then the slice \<open>j:j+n\<close>
  with a float bound raises \<open>TypeError\<close>.
\<close>

type_synonym classification = "matrix \<times> real list \<times> real list"

definition classify_metric ::
  "clustering \<Rightarrow> (string \<rightharpoonup> matrix) \<Rightarrow> int \<Rightarrow> string \<Rightarrow> classification
     \<Rightarrow> error + classification" where
  "classify_metric self daily_metrics n_group k = (\<lambda>(dat, dat_first, dat_last).
     case collect (map (\<lambda>g. get_data_for_group self daily_metrics (g * ndays self + 1) k)
                     [0..n_group - 1]) of
       Inl e \<Rightarrow> Inl e
     | Inr groupdata \<Rightarrow>
         (case get_data_for_group self daily_metrics 0 k of
            Inl e \<Rightarrow> Inl e
          | Inr d_first \<Rightarrow>
              if n_group = 0 then Inl TypeError
              else (case get_data_for_group self daily_metrics (ndays self * n_group + 1) k of
                      Inl e \<Rightarrow> Inl e
                    | Inr d_last \<Rightarrow>
                        Inr (map (\<lambda>(row, d). row @ d) (zip dat groupdata),
                             dat_first @ d_first, dat_last @ d_last))))"

text \<open>
  Lines 331--344: the feature matrix \<open>self.data\<close> (one row per complete group \<open>g\<close>,
  starting at day \<open>g * ndays + 1\<close>) and the two boundary vectors \<open>self.data_first\<close>
  (the group starting at day 0) and \<open>self.data_last\<close> (the group starting at day
  \<open>ndays * n_group + 1\<close>). \<open>np.zeros\<close> raises \<open>ValueError\<close> for a negative number
  of rows or columns.
\<close>

definition classification_data ::
  "clustering \<Rightarrow> (string \<rightharpoonup> matrix) \<Rightarrow> error + classification" where
  "classification_data self daily_metrics =
     (case n_metrics_of self of
        Inl e \<Rightarrow> Inl e
      | Inr n_metrics \<Rightarrow>
          (case n_group_of (ndays self) of
             Inl e \<Rightarrow> Inl e
           | Inr n_group \<Rightarrow>
               if n_group < 0 \<or> n_metrics < 0 then Inl ValueError
               else fold_err (\<lambda>(k, wt) s. if 0 < wt
                                           then classify_metric self daily_metrics n_group k s
                                           else Inr s)
                      (weights self) (replicate (nat n_group) [], [], [])))"

section \<open>More NumPy primitives\<close>

text \<open>\<open>argmin\<close> and \<open>argmax\<close> return the first position of the extreme value and
  raise \<open>ValueError\<close> on an empty sequence.\<close>

definition row_min :: "real list \<Rightarrow> real" where
  "row_min xs = fold min (tl xs) (hd xs)"

definition row_max :: "real list \<Rightarrow> real" where
  "row_max xs = fold max (tl xs) (hd xs)"

definition row_argmin :: "real list \<Rightarrow> nat" where
  "row_argmin xs = length (takeWhile (\<lambda>y. y \<noteq> row_min xs) xs)"

definition row_argmax :: "real list \<Rightarrow> nat" where
  "row_argmax xs = length (takeWhile (\<lambda>y. y \<noteq> row_max xs) xs)"

definition np_argmin :: "real list \<Rightarrow> error + nat" where
  "np_argmin xs = (if xs = [] then Inl ValueError else Inr (row_argmin xs))"

text \<open>\<open>np.median\<close> of all entries: the middle entry of the sorted values, or the mean
  of the two middle entries. On an empty array NumPy returns NaN; the model returns 0
  there, and the only caller that can pass an empty array raises before using it.\<close>

definition np_median :: "real list \<Rightarrow> real" where
  "np_median xs =
     (let s = sort xs; n = length xs
      in if n = 0 then 0
         else if even n then (s ! (n div 2 - 1) + s ! (n div 2)) / 2
         else s ! (n div 2))"

text \<open>\<open>argsort\<close> of an integer array. NumPy's default sort is stable on arrays of at
  most 16 entries and is a permutation that sorts in any case; the model sorts stably.
  On an array of distinct entries, as the exemplars are, the sorting permutation is
  unique.\<close>

definition np_argsort :: "int list \<Rightarrow> nat list" where
  "np_argsort xs = sort_key (\<lambda>i. xs ! i) [0..<length xs]"

text \<open>The squared Euclidean distance of two rows, \<open>((p - q) ** 2).sum()\<close>.\<close>

definition sqdist :: "vec \<Rightarrow> vec \<Rightarrow> real" where
  "sqdist p q = sum_list (map (\<lambda>(a, b). (a - b) ^ 2) (zip p q))"

text \<open>An \<open>n\<close>-by-\<open>n\<close> array given entry by entry.\<close>

definition square :: "nat \<Rightarrow> (nat \<Rightarrow> nat \<Rightarrow> real) \<Rightarrow> matrix" where
  "square n f = map (\<lambda>i. map (\<lambda>j. f i j) [0..<n]) [0..<n]"

text \<open>The column sums \<open>M.sum(0)\<close> of an array with at least one row.\<close>

definition col_sums :: "matrix \<Rightarrow> vec" where
  "col_sums M = map (\<lambda>k. sum_list (map (\<lambda>row. row ! k) M)) [0..<length (hd M)]"

section \<open>NumPy's global random generator\<close>

text \<open>
  \<open>np.random\<close> is a process-wide generator. Its implementation is not part of the
  repository, so the model carries it as data: \<open>generator s\<close> is the sequence of
  doubles that \<open>random_sample\<close> returns after \<open>np.random.seed(s)\<close>. The state is the
  sequence being consumed and the position in it.
\<close>

record rng_state =
  generator :: "nat \<Rightarrow> nat \<Rightarrow> real"
  stream :: "nat \<Rightarrow> real"
  pos :: nat

definition np_random_seed :: "nat \<Rightarrow> rng_state \<Rightarrow> rng_state" where
  "np_random_seed s g = g\<lparr>stream := generator g s, pos := 0\<rparr>"

definition np_random_sample :: "nat \<Rightarrow> rng_state \<Rightarrow> real list \<times> rng_state" where
  "np_random_sample n g = (map (stream g) [pos g..<pos g + n], g\<lparr>pos := pos g + n\<rparr>)"

section \<open>The class \<open>AffinityPropagation\<close>\<close>

text \<open>The constructor's parameters (\<open>self.random_seed\<close> is always 123), and the
  attributes that \<open>fit_predict\<close> fills, which the model returns as a record.\<close>

record affinity_propagation =
  damping :: real
  max_iter :: int
  convergence_iter :: int
  preference :: "real option"
  random_seed :: nat

definition AffinityPropagation ::
  "real \<Rightarrow> int \<Rightarrow> int \<Rightarrow> real option \<Rightarrow> affinity_propagation" where
  "AffinityPropagation d m c p =
     \<lparr>damping = d, max_iter = m, convergence_iter = c, preference = p, random_seed = 123\<rparr>"

record fit_result =
  n_clusters :: nat
  cluster_means :: matrix
  cluster_index :: "nat list"
  wcss :: real
  exemplars :: "nat list"
  converged :: bool

subsection \<open>\<open>compute_wcss\<close>\<close>

text \<open>Lines 663--669: for every cluster \<open>k\<close>, the squared distances of the points with
  \<open>cluster_index == k\<close> to \<open>means[k]\<close>, summed.\<close>

definition compute_wcss :: "matrix \<Rightarrow> nat list \<Rightarrow> matrix \<Rightarrow> real" where
  "compute_wcss dat index means =
     sum_list (map (\<lambda>k. sum_list (map (\<lambda>i. sqdist (dat ! i) (means ! k) *
                                              (if index ! i = k then 1 else 0))
                                    [0..<length dat]))
                 [0..<length means])"

subsection \<open>\<open>fit_predict\<close>: similarities, preference, perturbation\<close>

text \<open>Lines 674--679: \<open>S[p, :] = -((data[p, :] - data[:, :]) ** 2).sum(1)\<close>.\<close>

definition similarity :: "matrix \<Rightarrow> matrix" where
  "similarity dat = map (\<lambda>p. map (\<lambda>q. - sqdist p q) dat) dat"

text \<open>The assignment \<open>S[inds, inds] = v\<close> to the diagonal.\<close>

definition set_diag :: "matrix \<Rightarrow> real \<Rightarrow> matrix" where
  "set_diag S v = map (\<lambda>i. (S ! i)[i := v]) [0..<length S]"

text \<open>Lines 681--685. \<open>if self.preference\<close> is false for \<open>None\<close> and for \<open>0.0\<close>; the
  median is taken over the whole array \<open>S\<close>.\<close>

definition apply_preference :: "real option \<Rightarrow> matrix \<Rightarrow> matrix" where
  "apply_preference p S =
     (case p of
        Some v \<Rightarrow> if v \<noteq> 0 then set_diag S v else set_diag S (np_median (concat S))
      | None \<Rightarrow> set_diag S (np_median (concat S)))"

text \<open>Lines 688--689: \<open>mag = abs(S).min()\<close> and
  \<open>S += 1.e-8*mag * S * (sample - 0.5)\<close>, with the samples in row-major order.\<close>

definition perturb :: "real \<Rightarrow> real list \<Rightarrow> matrix \<Rightarrow> matrix" where
  "perturb mag sample S =
     square (length S)
       (\<lambda>i j. S ! i ! j + 1 / 10 ^ 8 * mag * (S ! i ! j) * (sample ! (i * length S + j) - 1 / 2))"

subsection \<open>\<open>fit_predict\<close>: one round of message passing\<close>

text \<open>
  Lines 702--711, for at least two observations. \<open>k\<close> is the position of the largest
  entry of row \<open>i\<close> of \<open>M = A + S\<close>; after that entry is set to \<open>-inf\<close> the largest
  entry of the row is the largest of the others.
\<close>

definition responsibility :: "real \<Rightarrow> matrix \<Rightarrow> matrix \<Rightarrow> matrix \<Rightarrow> matrix" where
  "responsibility damp S A R =
     square (length S)
       (\<lambda>i j. let M = map (\<lambda>c. A ! i ! c + S ! i ! c) [0..<length S];
                  k = row_argmax M;
                  maxval = M ! k;
                  maxval2 = row_max (take k M @ drop (Suc k) M);
                  update = (if j = k then S ! i ! j - maxval2 else S ! i ! j - maxval)
              in damp * (R ! i ! j) + (1 - damp) * update)"

text \<open>Lines 713--723, with \<open>R\<close> the responsibilities just computed.\<close>

definition availability :: "real \<Rightarrow> matrix \<Rightarrow> matrix \<Rightarrow> matrix" where
  "availability damp A R =
     (let n = length R;
          posR = square n (\<lambda>i j. if R ! i ! j < 0 then 0 else R ! i ! j);
          sumR = col_sums posR;
          vals = map (\<lambda>k. sumR ! k - posR ! k ! k) [0..<n]
      in square n
           (\<lambda>i k. let u = vals ! k - posR ! i ! k + R ! k ! k;
                      update = (if i = k then vals ! k else if 0 < u then 0 else u)
                  in damp * (A ! i ! k) + (1 - damp) * update))"

text \<open>The loop state: \<open>A\<close>, \<open>R\<close>, the exemplar flags, \<open>q\<close> and \<open>count\<close>.\<close>

type_synonym ap_state = "matrix \<times> matrix \<times> bool list \<times> nat \<times> nat"

definition ap_round :: "affinity_propagation \<Rightarrow> matrix \<Rightarrow> ap_state \<Rightarrow> ap_state" where
  "ap_round self S st =
     (case st of (A, R, exemplars_prev, q, count) \<Rightarrow>
        let R' = responsibility (damping self) S A R;
            A' = availability (damping self) A R';
            exemplars' = map (\<lambda>i. 0 < A' ! i ! i + R' ! i ! i) [0..<length S];
            diff = length (filter (\<lambda>(a, b). a \<noteq> b) (zip exemplars' exemplars_prev))
        in (A', R', exemplars', q + 1, if diff = 0 then count + 1 else 0))"

text \<open>Lines 698--733: \<open>while (q < self.max_iter) and (count < self.convergence_iter)\<close>.\<close>

function ap_loop :: "affinity_propagation \<Rightarrow> matrix \<Rightarrow> ap_state \<Rightarrow> ap_state" where
  "ap_loop self S (A, R, ex, q, count) =
     (if int q < max_iter self \<and> int count < convergence_iter self
      then ap_loop self S (ap_round self S (A, R, ex, q, count))
      else (A, R, ex, q, count))"
  by pat_completeness auto
termination
  by (relation "measure (\<lambda>(self, S, A, R, ex, q, count). nat (max_iter self - int q))")
     (auto simp: ap_round_def Let_def)

declare ap_loop.simps [simp del]

subsection \<open>\<open>fit_predict\<close>: assignment and exemplar refinement\<close>

text \<open>\<open>S[:, exemplars].argmin(1)\<close>: every point goes to the nearest exemplar, the first
  one among equals; \<open>ValueError\<close> when there is no exemplar.\<close>

definition assign_clusters :: "matrix \<Rightarrow> nat list \<Rightarrow> error + nat list" where
  "assign_clusters D exs = collect (map (\<lambda>row. np_argmin (map (\<lambda>e. row ! e) exs)) D)"

text \<open>Lines 747--756: the body of the loop for cluster \<open>k\<close>. The local array
  \<open>clusters\<close> (here \<open>clus\<close>) is the assignment made before the loop; the exemplar
  array is updated in place.\<close>

definition refine_exemplar :: "matrix \<Rightarrow> nat list \<Rightarrow> nat list \<Rightarrow> nat \<Rightarrow> nat list" where
  "refine_exemplar D clus exs k =
     (let pts = filter (\<lambda>i. clus ! i = k) [0..<length clus];
          n_pts = length pts
      in if 2 < n_pts then
           let dist_sum = map (\<lambda>p. sum_list (map (\<lambda>j. D ! p ! j) pts)) pts;
               i = row_argmin dist_sum
           in exs[k := pts ! i]
         else exs)"

text \<open>
  The whole method. For a single observation the second-largest entry of a row of
  length one is \<open>-inf\<close>: every round sets the responsibility to an infinity or NaN, the
  availability to NaN or zero, and \<open>diag(A) + diag(R) > 0\<close> is false after every round,
  whatever the damping. So no exemplar is elected and line 746 raises \<open>ValueError\<close>,
  as it does when the loop does not run at all; the model, whose reals cannot follow
  the infinities, returns that error directly. The exemplars elected by the loop are
  \<open>np.where(exemplars == True)[0]\<close>; the distance array \<open>D\<close> is \<open>S\<close> with its
  diagonal set to zero and its sign flipped (lines 744--745).
\<close>

definition elected :: "bool list \<Rightarrow> nat list" where
  "elected flags = filter (\<lambda>i. flags ! i) [0..<length flags]"

definition distances :: "matrix \<Rightarrow> matrix" where
  "distances S = square (length S) (\<lambda>i j. if i = j then 0 else - (S ! i ! j))"

definition refine_exemplars :: "matrix \<Rightarrow> nat list \<Rightarrow> nat list \<Rightarrow> nat list" where
  "refine_exemplars D clus exs =
     fold (\<lambda>k e. refine_exemplar D clus e k) [0..<length exs] exs"

definition perturbed_similarity ::
  "affinity_propagation \<Rightarrow> matrix \<Rightarrow> rng_state \<Rightarrow> error + (matrix \<times> rng_state)" where
  "perturbed_similarity self dat g =
     (let n_obs = length dat;
          S = apply_preference (preference self) (similarity dat);
          g1 = np_random_seed (random_seed self) g
      in bind_err (np_min (map abs (concat S)))
           (\<lambda>mag. case np_random_sample (n_obs * n_obs) g1 of
                     (sample, g2) \<Rightarrow> Inr (perturb mag sample S, g2)))"

definition fit_predict ::
  "affinity_propagation \<Rightarrow> matrix \<Rightarrow> rng_state \<Rightarrow> error + (fit_result \<times> rng_state)" where
  "fit_predict self dat g =
     bind_err (perturbed_similarity self dat g)
       (\<lambda>(S, g2).
          let n_obs = length dat in
          if n_obs = 1 \<and> 0 < max_iter self \<and> 0 < convergence_iter self then Inl ValueError
          else
            case ap_loop self S (square n_obs (\<lambda>i j. 0), square n_obs (\<lambda>i j. 0),
                                 replicate n_obs False, 0, 0) of
              (A, R, flags, q, count) \<Rightarrow>
                let conv = (\<not> (int count < convergence_iter self \<and> max_iter self \<le> int q));
                    exs0 = elected flags;
                    found_exemplars = length exs0;
                    D = distances S
                in bind_err (assign_clusters D exs0)
                     (\<lambda>clusters0.
                        let exs = refine_exemplars D clusters0 exs0
                        in bind_err (assign_clusters D exs)
                             (\<lambda>clusters1.
                                let means = map (\<lambda>e. dat ! e) exs
                                in Inr (\<lparr>n_clusters = found_exemplars,
                                          cluster_means = means,
                                          cluster_index = clusters1,
                                          wcss = compute_wcss dat clusters1 means,
                                          exemplars = exs,
                                          converged = conv\<rparr>, g2))))"
section \<open>\<open>Clustering.form_clusters_using_current_parameters\<close>\<close>

text \<open>Lines 446--454: the dictionary built, and returned to the caller, when the
  feature matrix has a single row. It has no entry \<open>weights\<close> and no entry
  \<open>converged\<close>.\<close>

definition single_group_clusters :: "matrix \<Rightarrow> pydict" where
  "single_group_clusters dat =
     [(''n_cluster'', PyInt 1),
      (''wcss'', PyFloat 0),
      (''index'', IntArray (replicate (length dat) 0)),
      (''count'', IntArray [1]),
      (''means'', FloatMatrix dat),
      (''partition_matrix'', FloatMatrix [[1]]),
      (''exemplars'', IntArray [0])]"

text \<open>Lines 456--462: the preference handed to the engine. The array \<open>distsqr\<close> is
  computed by the expression that computes \<open>S\<close> in \<open>fit_predict\<close>, and its median
  is taken over all its entries.\<close>

definition form_preference :: "clustering \<Rightarrow> real option" where
  "form_preference self =
     (if afp_preference_mult self = 1 then None
      else Some (np_median (concat (similarity (data self))) * afp_preference_mult self))"

text \<open>Lines 481--482: \<open>partition_matrix[inds, index[inds]] = 1.0\<close> on an array of
  zeros with one row per group and one column per cluster.\<close>

definition hard_partition :: "nat \<Rightarrow> nat list \<Rightarrow> error + matrix" where
  "hard_partition n_cl index =
     (if list_all (\<lambda>c. c < n_cl) index
      then Inr (map (\<lambda>c. (replicate n_cl 0)[c := 1]) index)
      else Inl IndexError)"

text \<open>Lines 466--494: the dictionary built from the fitted engine. The fuzzy branch
  reads \<open>self.mfuzzy\<close>, an attribute that no code sets.\<close>

definition formed_clusters :: "clustering \<Rightarrow> fit_result \<Rightarrow> error + pydict" where
  "formed_clusters self alg =
     (let n_group = length (data self);
          n_cl = n_clusters alg;
          count = map (\<lambda>k. int (length (filter (\<lambda>c. c = k) (cluster_index alg)))) [0..<n_cl]
      in if sim_hard_partitions self then
           bind_err (hard_partition n_cl (cluster_index alg))
             (\<lambda>P. Inr [(''index'', IntArray (map int (cluster_index alg))),
                        (''n_cluster'', PyInt (int n_cl)),
                        (''means'', FloatMatrix (cluster_means alg)),
                        (''wcss'', PyFloat (wcss alg)),
                        (''exemplars'', IntArray (map int (exemplars alg))),
                        (''converged'', PyBool (converged alg)),
                        (''count'', IntArray count),
                        (''partition_matrix'', FloatMatrix P),
                        (''weights'', FloatArray (map (\<lambda>s. s / real n_group) (col_sums P)))])
         else Inl AttributeError)"

text \<open>The local dictionary \<open>clusters\<close> of the method, on either path.\<close>

definition clusters_dict :: "clustering \<Rightarrow> rng_state \<Rightarrow> error + (pydict \<times> rng_state)" where
  "clusters_dict self g =
     (if length (data self) = 1 then Inr (single_group_clusters (data self), g)
      else bind_err (fit_predict (AffinityPropagation (afp_damping self) (Nmaxiter self)
                                    (afp_Nconverge self) (form_preference self))
                       (data self) g)
             (\<lambda>(alg, g'). bind_err (formed_clusters self alg) (\<lambda>c. Inr (c, g'))))"

text \<open>
  The method itself. With a single row it returns the dictionary (line 454) and leaves
  \<open>self.clusters\<close> as it was; otherwise it stores the dictionary in \<open>self.clusters\<close>
  (line 496) and returns \<open>None\<close>. The result is the returned value, the object and the
  generator state.
\<close>

definition form_clusters_using_current_parameters ::
  "clustering \<Rightarrow> rng_state \<Rightarrow> error + (pydict option \<times> clustering \<times> rng_state)" where
  "form_clusters_using_current_parameters self g =
     bind_err (clusters_dict self g)
       (\<lambda>(c, g'). if length (data self) = 1 then Inr (Some c, self, g')
                   else Inr (None, self\<lparr>clusters := c\<rparr>, g'))"

section \<open>\<open>Clustering.create_clusters\<close>\<close>

text \<open>Lines 392--400: the next preference multiplier. Both quotients are quotients of
  Python floats, which raise \<open>ZeroDivisionError\<close> on a zero divisor.\<close>

definition next_multiplier :: "int \<Rightarrow> real \<Rightarrow> real \<Rightarrow> int \<Rightarrow> int \<Rightarrow> error + real" where
  "next_multiplier Ntarget mult mult_prev Nc_prev Nc =
     (let urf = 85 / 100;
          proportional = (if Ntarget = 0 then Inl ZeroDivisionError
                          else Inr (mult * real_of_int Nc / real_of_int Ntarget))
      in bind_err
           (if Nc_prev = 0 \<or> Nc = Nc_prev then proportional
            else if mult - mult_prev = 0 then Inl ZeroDivisionError
            else let dNcdmult = real_of_int (Nc - Nc_prev) / (mult - mult_prev)
                 in if dNcdmult = 0 then Inl ZeroDivisionError
                    else Inr (mult - urf * real_of_int (Nc - Ntarget) / dNcdmult))
           (\<lambda>mult_new. if mult_new \<le> 0 then proportional else Inr mult_new))"

text \<open>Lines 367--406: one pass of the body of the search loop. The search state is
  \<open>mult\<close>, \<open>mult_prev\<close>, \<open>Nc_prev\<close> and \<open>finished\<close>; the counter \<open>i\<close> is kept by
  the loop. The \<open>print\<close> calls are modelled by the dictionary lookups they make.\<close>

type_synonym search_state = "real \<times> real \<times> int \<times> bool"

definition search_step ::
  "int \<Rightarrow> int \<Rightarrow> real \<Rightarrow> bool \<Rightarrow> search_state \<Rightarrow> clustering \<Rightarrow> rng_state
     \<Rightarrow> error + (search_state \<times> clustering \<times> rng_state)" where
  "search_step Ntarget tol damping_original verbose st self g =
     (case st of (mult, mult_prev, Nc_prev, finished) \<Rightarrow>
        bind_err (form_clusters_using_current_parameters (self\<lparr>afp_preference_mult := mult\<rparr>) g)
          (\<lambda>(ret, self1, g1).
             bind_err (getitem (clusters self1) ''converged'')
               (\<lambda>conv_value.
                  bind_err (if verbose then getitem (clusters self1) ''n_cluster''
                            else Inr conv_value)
                    (\<lambda>printed.
                       bind_err (truthy conv_value)
                         (\<lambda>conv.
                            if \<not> conv then
                              Inr ((mult, mult_prev, Nc_prev, finished),
                                   self1\<lparr>afp_damping := min (afp_damping self1 + 5 / 100) (95 / 100)\<rparr>,
                                   g1)
                            else
                              let self2 = self1\<lparr>afp_damping := damping_original\<rparr>
                              in bind_err (get_int (clusters self2) ''n_cluster'')
                                   (\<lambda>Nc.
                                      if \<bar>Nc - Ntarget\<bar> \<le> tol then
                                        Inr ((mult, mult_prev, Nc_prev, True), self2, g1)
                                      else
                                        bind_err (next_multiplier Ntarget mult mult_prev Nc_prev Nc)
                                          (\<lambda>mult_new.
                                             Inr ((mult_new, mult, Nc, finished), self2, g1))))))))"

text \<open>Line 366: \<open>while i < maxiter and not finished\<close>.\<close>

function search_loop ::
  "int \<Rightarrow> int \<Rightarrow> int \<Rightarrow> real \<Rightarrow> bool \<Rightarrow> int \<Rightarrow> search_state \<Rightarrow> clustering \<Rightarrow> rng_state
     \<Rightarrow> error + (search_state \<times> clustering \<times> rng_state)" where
  "search_loop maxiter Ntarget tol damping_original verbose i st self g =
     (if i < maxiter \<and> \<not> snd (snd (snd st)) then
        (case search_step Ntarget tol damping_original verbose st self g of
           Inl e \<Rightarrow> Inl e
         | Inr (st', self', g') \<Rightarrow>
             search_loop maxiter Ntarget tol damping_original verbose (i + 1) st' self' g')
      else Inr (st, self, g))"
  by pat_completeness auto
termination
  by (relation "measure (\<lambda>(maxiter, Ntarget, tol, d, verbose, i, st, self, g). nat (maxiter - i))")
     auto

declare search_loop.simps [simp del]

text \<open>\<open>np.empty_like\<close>: an array of the shape and type of its argument whose entries
  are whatever the allocated memory holds. \<open>junk\<close> is that content, position by
  position. Of a Python scalar it makes an array of dimension zero.\<close>

fun empty_like :: "(nat \<Rightarrow> real) \<Rightarrow> cval \<Rightarrow> cval" where
  "empty_like junk (PyInt i) = IntArray0 \<lfloor>junk 0\<rfloor>"
| "empty_like junk (PyFloat x) = FloatArray0 (junk 0)"
| "empty_like junk (PyBool b) = BoolArray0 (junk 0 \<noteq> 0)"
| "empty_like junk (IntArray0 i) = IntArray0 \<lfloor>junk 0\<rfloor>"
| "empty_like junk (FloatArray0 x) = FloatArray0 (junk 0)"
| "empty_like junk (BoolArray0 b) = BoolArray0 (junk 0 \<noteq> 0)"
| "empty_like junk (IntArray xs) = IntArray (map (\<lambda>i. \<lfloor>junk i\<rfloor>) [0..<length xs])"
| "empty_like junk (FloatArray xs) = FloatArray (map junk [0..<length xs])"
| "empty_like junk (FloatMatrix m) = FloatMatrix (map (\<lambda>r. map junk [0..<length r]) m)"

text \<open>Reading and writing one entry of a stored one-dimensional array, and one column
  of a matrix.\<close>

fun elem :: "cval \<Rightarrow> int \<Rightarrow> error + cval" where
  "elem (IntArray xs) k = bind_err (nth_err xs k) (\<lambda>x. Inr (PyInt x))"
| "elem (FloatArray xs) k = bind_err (nth_err xs k) (\<lambda>x. Inr (PyFloat x))"
| "elem (FloatMatrix m) k = bind_err (nth_err m k) (\<lambda>r. Inr (FloatArray r))"
| "elem (IntArray0 i) k = Inl IndexError"
| "elem (FloatArray0 x) k = Inl IndexError"
| "elem (BoolArray0 b) k = Inl IndexError"
| "elem v k = Inl TypeError"

text \<open>The stored array and the value written have the same element type wherever
  \<open>set_elem\<close> is used below (the target is \<open>empty_like\<close> of the source); other
  combinations are not followed.\<close>

fun set_elem :: "cval \<Rightarrow> int \<Rightarrow> cval \<Rightarrow> error + cval" where
  "set_elem (IntArray xs) i (PyInt v) = bind_err (update_err xs i v) (\<lambda>ys. Inr (IntArray ys))"
| "set_elem (FloatArray xs) i (PyFloat v) =
     bind_err (update_err xs i v) (\<lambda>ys. Inr (FloatArray ys))"
| "set_elem (FloatArray xs) i (PyInt v) =
     bind_err (update_err xs i (real_of_int v)) (\<lambda>ys. Inr (FloatArray ys))"
| "set_elem (IntArray0 j) i v = Inl IndexError"
| "set_elem (FloatArray0 x) i v = Inl IndexError"
| "set_elem (BoolArray0 b) i v = Inl IndexError"
| "set_elem d i v = Inl TypeError"

definition column :: "matrix \<Rightarrow> int \<Rightarrow> error + vec" where
  "column m k = collect (map (\<lambda>r. nth_err r k) m)"

definition set_column :: "matrix \<Rightarrow> int \<Rightarrow> vec \<Rightarrow> error + matrix" where
  "set_column m i col =
     (if length col \<noteq> length m then Inl ValueError
      else collect (map (\<lambda>(r, v). update_err r i v) (zip m col)))"

text \<open>Lines 426--432: the body of the loop over the clusters, for position \<open>i\<close>;
  \<open>old\<close> is \<open>self.clusters\<close>, \<open>cs\<close> is \<open>clusters_sorted\<close>.\<close>

definition sort_cluster :: "pydict \<Rightarrow> nat list \<Rightarrow> nat \<Rightarrow> pydict \<Rightarrow> error + pydict" where
  "sort_cluster old inds i cs =
     bind_err (nth_err inds (int i))
       (\<lambda>kn. let k = int kn in
          bind_err (get_matrix old ''partition_matrix'')
            (\<lambda>P. bind_err (column P k)
               (\<lambda>col. bind_err (get_matrix cs ''partition_matrix'')
                  (\<lambda>P'. bind_err (set_column P' (int i) col)
                     (\<lambda>P''.
                        bind_err
                          (fold_err
                             (\<lambda>key c. bind_err (getitem old key)
                                (\<lambda>src. bind_err (elem src k)
                                   (\<lambda>v. bind_err (getitem c key)
                                      (\<lambda>dst. bind_err (set_elem dst (int i) v)
                                         (\<lambda>dst'. Inr (AList.update key dst' c))))))
                             [''count'', ''weights'', ''exemplars'']
                             (AList.update ''partition_matrix'' (FloatMatrix P'') cs))
                          (\<lambda>cs2. bind_err (get_matrix old ''means'')
                             (\<lambda>M. bind_err (nth_err M k)
                                (\<lambda>row. bind_err (get_matrix cs2 ''means'')
                                   (\<lambda>M'. bind_err (update_err M' (int i) row)
                                      (\<lambda>M''. Inr (AList.update ''means'' (FloatMatrix M'') cs2)))))))))))"

text \<open>Lines 433--435: the body of the loop over the groups; \<open>ranks\<close> is
  \<open>inds.argsort()\<close>.\<close>

definition relabel_group :: "pydict \<Rightarrow> nat list \<Rightarrow> nat \<Rightarrow> pydict \<Rightarrow> error + pydict" where
  "relabel_group old ranks g cs =
     bind_err (get_int_array old ''index'')
       (\<lambda>index. bind_err (nth_err index (int g))
          (\<lambda>k. bind_err (nth_err ranks k)
             (\<lambda>v. bind_err (get_int_array cs ''index'')
                (\<lambda>index'. bind_err (update_err index' (int g) (int v))
                   (\<lambda>index''. Inr (AList.update ''index'' (IntArray index'') cs))))))"

text \<open>
  Lines 416--437. Every entry of \<open>self.clusters\<close> other than \<open>n_cluster\<close> and
  \<open>wcss\<close> starts as \<open>np.empty_like\<close> of the old entry (\<open>junk key\<close> is the memory
  found for that key); the two loops then fill the per-cluster arrays and the
  per-group index.
\<close>

definition sort_clusters :: "(string \<Rightarrow> nat \<Rightarrow> real) \<Rightarrow> clustering \<Rightarrow> error + clustering" where
  "sort_clusters junk self =
     (let n_group = length (data self); old = clusters self in
      bind_err (get_int old ''n_cluster'')
        (\<lambda>n_cl. bind_err (get_int_array old ''exemplars'')
           (\<lambda>exs.
              let inds = np_argsort exs;
                  clusters_sorted =
                    map (\<lambda>(key, v). if key \<in> set [''n_cluster'', ''wcss''] then (key, v)
                                     else (key, empty_like (junk key) v)) old
              in bind_err (fold_err (sort_cluster old inds) [0..<nat n_cl] clusters_sorted)
                   (\<lambda>cs1. bind_err (fold_err (relabel_group old (np_argsort (map int inds)))
                                       [0..<n_group] cs1)
                      (\<lambda>cs2. Inr (self\<lparr>clusters := cs2\<rparr>))))))"

text \<open>
  The whole method (lines 348--438). When the cluster count is enforced, the search
  runs first; a search that ends unfinished prints the current cluster count (a
  lookup).
\<close>

definition create_clusters ::
  "bool \<Rightarrow> (string \<Rightarrow> nat \<Rightarrow> real) \<Rightarrow> clustering \<Rightarrow> rng_state
     \<Rightarrow> error + (clustering \<times> rng_state)" where
  "create_clusters verbose junk self g =
     bind_err
       (if \<not> afp_enforce_Ncluster self then
          bind_err (form_clusters_using_current_parameters self g)
            (\<lambda>(ret, self1, g1). Inr (self1, g1))
        else
          bind_err (search_loop (afp_enforce_Ncluster_maxiter self) (n_cluster self)
                      (afp_enforce_Ncluster_tol self) (afp_damping self) verbose 0
                      (1, 1, 0, False) self g)
            (\<lambda>(st, self1, g1).
               if \<not> snd (snd (snd st))
               then bind_err (getitem (clusters self1) ''n_cluster'') (\<lambda>printed. Inr (self1, g1))
               else Inr (self1, g1)))
       (\<lambda>(self1, g1).
          bind_err (if verbose
                    then bind_err (getitem (clusters self1) ''n_cluster'')
                           (\<lambda>printed. getitem (clusters self1) ''wcss'')
                    else Inr (PyBool True))
            (\<lambda>printed. bind_err (sort_clusters junk self1) (\<lambda>self2. Inr (self2, g1))))"

section \<open>\<open>set_sim_days\<close> and \<open>adjust_weighting_for_incomplete_groups\<close>\<close>

text \<open>Line 501: \<open>self.sim_start_days = (1 + self.clusters['exemplars']*self.ndays).tolist()\<close>.\<close>

definition set_sim_days :: "clustering \<Rightarrow> error + clustering" where
  "set_sim_days self =
     bind_err (get_int_array (clusters self) ''exemplars'')
       (\<lambda>exs. Inr (self\<lparr>sim_start_days := map (\<lambda>e. 1 + e * ndays self) exs\<rparr>))"

text \<open>Lines 515--518: what feature \<open>f\<close> of a boundary vector adds to its squared
  distance from the mean of cluster \<open>k\<close>; nothing when the feature is undefined.\<close>

definition boundary_term :: "vec \<Rightarrow> pydict \<Rightarrow> nat \<Rightarrow> nat \<Rightarrow> error + real" where
  "boundary_term v c k f =
     bind_err (nth_err v (int f))
       (\<lambda>x. if - (10 ^ 6) < x then
               bind_err (get_matrix c ''means'')
                 (\<lambda>M. bind_err (nth_err M (int k))
                    (\<lambda>row. bind_err (nth_err row (int f)) (\<lambda>m. Inr ((x - m) ^ 2))))
             else Inr 0)"

definition boundary_distances :: "clustering \<Rightarrow> nat \<Rightarrow> nat \<Rightarrow> error + (real \<times> real) list" where
  "boundary_distances self n_cl nfeatures =
     collect (map (\<lambda>k. bind_err
                          (collect (map (\<lambda>f. bind_err (boundary_term (data_first self) (clusters self) k f)
                                             (\<lambda>a. bind_err (boundary_term (data_last self) (clusters self) k f)
                                                (\<lambda>b. Inr (a, b))))
                                      [0..<nfeatures]))
                          (\<lambda>ts. Inr (sum_list (map fst ts), sum_list (map snd ts))))
                [0..<n_cl])"

text \<open>
  Lines 504--532. \<open>ngroup, nfeatures = self.data.shape\<close>; the feature matrix has at
  least one row whenever clusters exist, and the number of its columns is the length of
  its first row.
\<close>

definition adjust_weighting_for_incomplete_groups :: "clustering \<Rightarrow> error + clustering" where
  "adjust_weighting_for_incomplete_groups self =
     (let ngroup = length (data self);
          nfeatures = (case data self of [] \<Rightarrow> 0 | r # rs \<Rightarrow> length r)
      in bind_err (get_int (clusters self) ''n_cluster'')
           (\<lambda>n_cl. bind_err (boundary_distances self (nat n_cl) nfeatures)
              (\<lambda>dists. bind_err (np_argmin (map fst dists))
                 (\<lambda>first. bind_err (np_argmin (map snd dists))
                    (\<lambda>last.
                       if ndays self = 0 then Inl ZeroDivisionError
                       else
                         let nfirst = 1;
                             nlast = real_of_int (365 - int ngroup * ndays self - 1);
                             nd = real_of_int (ndays self);
                             ngroup_adj = real ngroup + nfirst / nd + nlast / nd
                         in bind_err (get_matrix (clusters self) ''partition_matrix'')
                              (\<lambda>P. let s = col_sums P in
                                 bind_err (nth_err s (int first))
                                   (\<lambda>a. bind_err (update_err s (int first) (a + nfirst / nd))
                                      (\<lambda>s1. bind_err (nth_err s1 (int last))
                                         (\<lambda>b. bind_err (update_err s1 (int last) (b + nlast / nd))
                                            (\<lambda>s2. Inr (self\<lparr>index_first := int first,
                                                             index_last := int last,
                                                             clusters :=
                                                               AList.update ''weights_adjusted''
                                                                 (FloatArray (map (\<lambda>x. x / ngroup_adj) s2))
                                                                 (clusters self)\<rparr>)))))))))))"

section \<open>The initial state of charge of the thermal storage\<close>

text \<open>
  Lines 200--202 of \<open>calculate_metrics\<close>:
  \<^verbatim>\<open>
  self.daily_avg_dni = np.zeros(365)
  for d in range(365):
      self.daily_avg_dni = hourly_data['dni'][d*n_pts_day : (d+1)*n_pts_day].mean() / 1000.
  \<close>
  Every pass assigns the attribute itself, not its entry \<open>d\<close>. The mean of an empty
  slice is NaN in NumPy and 0 in the model.
\<close>

definition slice_mean :: "real list \<Rightarrow> nat \<Rightarrow> nat \<Rightarrow> real" where
  "slice_mean xs a b = (let s = take (b - a) (drop a xs) in sum_list s / real (length s))"

definition daily_avg_dni_loop :: "real list \<Rightarrow> nat \<Rightarrow> dni_value" where
  "daily_avg_dni_loop dni n_pts_day =
     fold (\<lambda>d v. Float64 (slice_mean dni (d * n_pts_day) ((d + 1) * n_pts_day) / 1000))
       [0..<365] (NdArray (replicate 365 0))"

text \<open>Indexing \<open>self.daily_avg_dni[i]\<close>: a NumPy scalar cannot be indexed
  (\<open>IndexError: invalid index to scalar variable\<close>).\<close>

fun dni_getitem :: "dni_value \<Rightarrow> int \<Rightarrow> error + real" where
  "dni_getitem (PyList xs) i = nth_err xs i"
| "dni_getitem (NdArray xs) i = nth_err xs i"
| "dni_getitem (Float64 x) i = Inl IndexError"

text \<open>Lines 555--570. \<open>not solar_multiple\<close> holds for \<open>None\<close> and for zero.\<close>

definition csp_soc_heuristic :: "clustering \<Rightarrow> int \<Rightarrow> real option \<Rightarrow> error + int" where
  "csp_soc_heuristic self clusterid solar_multiple =
     bind_err (nth_err (sim_start_days self) clusterid)
       (\<lambda>d. bind_err (dni_getitem (daily_avg_dni self) (max 0 (d - 2)))
          (\<lambda>prev_day_dni.
             case solar_multiple of
               None \<Rightarrow> Inr 10
             | Some sm \<Rightarrow>
                 if sm = 0 then Inr 10
                 else if prev_day_dni < 6 \<or> sm < 15 / 10 then Inr 5
                 else if sm < 2 then Inr 10 else Inr 20))"

section \<open>Notions of the specification\<close>

text \<open>
  The default preference as the specification words it: the median of the off-diagonal
  similarities, the entries \<open>S[i, j]\<close> with \<open>i \<noteq> j\<close>.
\<close>

definition off_diagonal :: "matrix \<Rightarrow> real list" where
  "off_diagonal S =
     concat (map (\<lambda>i. map (\<lambda>j. S ! i ! j) (filter (\<lambda>j. j \<noteq> i) [0..<length S]))
               [0..<length S])"

definition spec_default_preference :: "matrix \<Rightarrow> real" where
  "spec_default_preference S = np_median (off_diagonal S)"

text \<open>
  A partition matrix is hard, for \<open>n\<close> clusters, when each of its rows has a single
  entry 1, in one of the \<open>n\<close> columns, and zeros elsewhere.
\<close>

definition one_hot_rows :: "nat \<Rightarrow> matrix \<Rightarrow> bool" where
  "one_hot_rows n P =
     list_all (\<lambda>row. list_ex (\<lambda>k. row = (replicate n 0)[k := 1]) [0..<n]) P"

section \<open>Example inputs\<close>

text \<open>A configuration with groups of 121 days (three complete groups), a direct
  irradiance metric with its previous-day and next-day variants, one division each, and
  daily tables that are constant 1.\<close>

definition example_config :: clustering where
  "example_config =
     Clustering\<lparr>ndays := 121,
                weights := [(''dni'', 1), (''dni_prev'', 1 / 2), (''dni_next'', 1 / 2)],
                divisions := [(''dni'', 1), (''dni_prev'', 1), (''dni_next'', 1)]\<rparr>"

definition example_daily_metrics :: "string \<rightharpoonup> matrix" where
  "example_daily_metrics =
     map_of [(''dni'', replicate 365 [1]), (''dni_prev'', replicate 365 [1]),
             (''dni_next'', replicate 365 [1])]"

text \<open>A stand-in for NumPy's generator, and two states of the global generator: one
  never used, one left behind by other draws after another seed.\<close>

definition example_generator :: "nat \<Rightarrow> nat \<Rightarrow> real" where
  "example_generator s i = (if even (s + i) then 1 / 4 else 3 / 4)"

definition fresh_rng :: rng_state where
  "fresh_rng = \<lparr>generator = example_generator, stream = example_generator 0, pos = 0\<rparr>"

definition used_rng :: rng_state where
  "used_rng = \<lparr>generator = example_generator, stream = example_generator 7, pos = 42\<rparr>"

text \<open>
  Two observations, \<open>[0]\<close> and \<open>[1]\<close>, clustered into the two clusters asked for,
  with at most two rounds of message passing and one stable round for convergence: the
  object, its engine, the perturbed similarities under \<^const>\<open>example_generator\<close>,
  the responsibilities after the first and the second round, and the dictionary that
  forming clusters stores (the attempt converges).
\<close>

definition example_object :: clustering where
  "example_object =
     Clustering\<lparr>data := [[0], [1]], n_cluster := 2, Nmaxiter := 2, afp_Nconverge := 1\<rparr>"

definition example_engine :: affinity_propagation where
  "example_engine = AffinityPropagation (1 / 2) 2 1 None"

definition example_similarities :: matrix where
  "example_similarities =
     [[- (800000001 / 1600000000), - (799999999 / 800000000)],
      [- (800000001 / 800000000), - (799999999 / 1600000000)]]"

definition example_responsibilities :: matrix where
  "example_responsibilities =
     [[799999997 / 3200000000, - (799999997 / 3200000000)],
      [- (800000003 / 3200000000), 800000003 / 3200000000]]"

definition example_responsibilities2 :: matrix where
  "example_responsibilities2 =
     [[2399999991 / 6400000000, - (2399999991 / 6400000000)],
      [- (2400000009 / 6400000000), 2400000009 / 6400000000]]"

definition example_clusters :: pydict where
  "example_clusters =
     [(''index'', IntArray [0, 1]), (''n_cluster'', PyInt 2),
      (''means'', FloatMatrix [[0], [1]]), (''wcss'', PyFloat 0),
      (''exemplars'', IntArray [0, 1]), (''converged'', PyBool True),
      (''count'', IntArray [1, 1]),
      (''partition_matrix'', FloatMatrix [[1, 0], [0, 1]]),
      (''weights'', FloatArray [1 / 2, 1 / 2])]"

text \<open>The same object once the clusters are stored, with groups of 150 days and
  boundary vectors whose single feature is undefined at the start of the year and
  \<open>0.75\<close> at its end.\<close>

definition example_clustered :: clustering where
  "example_clustered =
     example_object\<lparr>ndays := 150, data_first := [undefined_feature], data_last := [3 / 4],
                     clusters := example_clusters\<rparr>"

section \<open>Properties of the primitives\<close>

lemma np_max_Max: "xs \<noteq> [] \<Longrightarrow> np_max xs = Inr (Max (set xs))"
  by (cases xs) (simp_all add: np_max_def flip: Max.set_eq_fold)

lemma np_min_Min: "xs \<noteq> [] \<Longrightarrow> np_min xs = Inr (Min (set xs))"
  by (cases xs) (simp_all add: np_min_def flip: Min.set_eq_fold)

lemma np_max_empty: "np_max [] = Inl ValueError"
  by (simp add: np_max_def)

lemma collect_Inr:
  "collect xs = Inr vs \<Longrightarrow> xs = map Inr vs"
proof (induction xs arbitrary: vs)
  case Nil
  then show ?case by simp
next
  case (Cons x xs)
  then show ?case by (auto split: sum.splits)
qed

lemma collect_map_Inr:
  "collect (map f xs) = Inr vs \<Longrightarrow> length vs = length xs \<and> (\<forall>i < length xs. f (xs ! i) = Inr (vs ! i))"
proof -
  assume "collect (map f xs) = Inr vs"
  then have eq: "map f xs = map Inr vs" by (rule collect_Inr)
  then have len: "length vs = length xs"
    by (metis length_map)
  have "\<forall>i < length xs. f (xs ! i) = Inr (vs ! i)"
  proof (intro allI impI)
    fix i assume i: "i < length xs"
    then have "map f xs ! i = map Inr vs ! i" using eq by simp
    then show "f (xs ! i) = Inr (vs ! i)" using i len by simp
  qed
  with len show ?thesis by simp
qed

lemma fold_err_invariant:
  assumes "fold_err f xs s = Inr s'" "Q s"
    and "\<And>x a b. x \<in> set xs \<Longrightarrow> f x a = Inr b \<Longrightarrow> Q a \<Longrightarrow> Q b"
  shows "Q s'"
  using assms
proof (induction xs arbitrary: s)
  case Nil
  then show ?case by simp
next
  case (Cons x xs)
  from Cons.prems(1) obtain s1 where s1: "f x s = Inr s1" and rest: "fold_err f xs s1 = Inr s'"
    by (auto split: sum.splits)
  have q1: "Q s1" using Cons.prems(3)[of x s s1] s1 Cons.prems(2) by simp
  show ?case
  proof (rule Cons.IH[OF rest q1])
    fix y a b
    assume "y \<in> set xs" "f y a = Inr b" "Q a"
    then show "Q b" using Cons.prems(3)[of y a b] by simp
  qed
qed

section \<open>Normalisation of the daily metric tables\<close>

lemma normalize_metric_eq:
  assumes ne: "concat tbl \<noteq> []"
  shows "normalize_metric tbl =
     Inr (map (map (\<lambda>x. (x - Min (set (concat tbl))) /
            max (1 / 10 ^ 6) (Max (set (concat tbl)) - Min (set (concat tbl))))) tbl)"
  using ne by (simp add: normalize_metric_def np_max_Max np_min_Min)

lemma Max_affine:
  fixes S :: "real set"
  assumes "finite S" "S \<noteq> {}" "0 < c"
  shows "Max ((\<lambda>x. (x - m) / c) ` S) = (Max S - m) / c"
proof -
  have "mono (\<lambda>x::real. (x - m) / c)"
    using assms(3) by (simp add: mono_def divide_right_mono)
  then show ?thesis
    using mono_Max_commute[of "\<lambda>x. (x - m) / c" S] assms by simp
qed

lemma Min_affine:
  fixes S :: "real set"
  assumes "finite S" "S \<noteq> {}" "0 < c"
  shows "Min ((\<lambda>x. (x - m) / c) ` S) = (Min S - m) / c"
proof -
  have "mono (\<lambda>x::real. (x - m) / c)"
    using assms(3) by (simp add: mono_def divide_right_mono)
  then show ?thesis
    using mono_Min_commute[of "\<lambda>x. (x - m) / c" S] assms by simp
qed

lemma np_min_map_affine:
  assumes "xs \<noteq> []" "0 < c"
  shows "np_min (map (\<lambda>x. (x - m) / c) xs) = Inr ((Min (set xs) - m) / c)"
proof -
  have "np_min (map (\<lambda>x. (x - m) / c) xs) = Inr (Min ((\<lambda>x. (x - m) / c) ` set xs))"
    using assms(1) by (simp add: np_min_Min)
  then show ?thesis using Min_affine[of "set xs" c m] assms by simp
qed

lemma np_max_map_affine:
  assumes "xs \<noteq> []" "0 < c"
  shows "np_max (map (\<lambda>x. (x - m) / c) xs) = Inr ((Max (set xs) - m) / c)"
proof -
  have "np_max (map (\<lambda>x. (x - m) / c) xs) = Inr (Max ((\<lambda>x. (x - m) / c) ` set xs))"
    using assms(1) by (simp add: np_max_Max)
  then show ?thesis using Max_affine[of "set xs" c m] assms by simp
qed

lemma normalize_metric_extremes:
  assumes ne: "concat tbl \<noteq> []"
  defines "mx \<equiv> Max (set (concat tbl))" and "mn \<equiv> Min (set (concat tbl))"
  shows "\<exists>t. normalize_metric tbl = Inr t \<and> np_min (concat t) = Inr 0 \<and>
             np_max (concat t) = Inr ((mx - mn) / max (1 / 10 ^ 6) (mx - mn))"
proof -
  define c where "c = max (1 / 10 ^ 6) (mx - mn)"
  define t where "t = map (map (\<lambda>x. (x - mn) / c)) tbl"
  have c: "0 < c" by (simp add: c_def less_max_iff_disj)
  have t: "normalize_metric tbl = Inr t"
    using normalize_metric_eq[OF ne] by (simp add: mx_def mn_def t_def c_def)
  have ct: "concat t = map (\<lambda>x. (x - mn) / c) (concat tbl)"
    by (simp only: t_def map_concat)
  have "np_min (concat t) = Inr ((mn - mn) / c)"
    unfolding ct mn_def by (rule np_min_map_affine[OF ne c])
  then have mn0: "np_min (concat t) = Inr 0" by simp
  have "np_max (concat t) = Inr ((mx - mn) / c)"
    unfolding ct mx_def by (rule np_max_map_affine[OF ne c])
  with t mn0 show ?thesis unfolding c_def by blast
qed

lemma np_max_Inr_iff: "np_max xs = Inr m \<Longrightarrow> xs \<noteq> [] \<and> m = Max (set xs)"
  by (cases xs) (auto simp: np_max_def simp flip: Max.set_eq_fold)

lemma np_min_Inr_iff: "np_min xs = Inr m \<Longrightarrow> xs \<noteq> [] \<and> m = Min (set xs)"
  by (cases xs) (auto simp: np_min_def simp flip: Min.set_eq_fold)

text \<open>
  Claim C7, as amended. The denominator is floored at \<open>1e-6\<close>, so the normalised
  table spans the whole unit interval only when the raw range reaches that floor: for a
  raw table whose maximum exceeds its minimum by at least \<open>1e-6\<close>, the normalised
  table has minimum 0 and maximum 1.
\<close>

theorem normalize_metric_unit_range:
  assumes "np_max (concat tbl) = Inr mx" and "np_min (concat tbl) = Inr mn"
    and "1 / 10 ^ 6 \<le> mx - mn"
  shows "\<exists>t. normalize_metric tbl = Inr t \<and> np_min (concat t) = Inr 0 \<and> np_max (concat t) = Inr 1"
proof -
  from assms(1) have ne: "concat tbl \<noteq> []" and mx: "mx = Max (set (concat tbl))"
    using np_max_Inr_iff by blast+
  from assms(2) have mn: "mn = Min (set (concat tbl))"
    using np_min_Inr_iff by blast
  have "max (1 / 10 ^ 6) (mx - mn) = mx - mn" using assms(3) by simp
  moreover have "mx - mn \<noteq> 0" using assms(3) by auto
  ultimately have "(mx - mn) / max (1 / 10 ^ 6) (mx - mn) = 1" by simp
  then show ?thesis
    using normalize_metric_extremes[OF ne] mx mn by simp
qed

lemma concat_replicate_single: "concat (replicate n [x]) = replicate n x"
  by (induction n) simp_all

text \<open>A 365-by-1 table that is 0 on every day but the last, where it is 1.\<close>

theorem normalize_metric_unit_range_witness:
  "np_max (concat (replicate 364 [0] @ [[1]])) = Inr 1 \<and> np_min (concat (replicate 364 [0] @ [[1]])) = Inr 0
   \<and> (1::real) / 10 ^ 6 \<le> 1 - 0
   \<and> (\<exists>t. normalize_metric (replicate 364 [0] @ [[1]]) = Inr t \<and> np_min (concat t) = Inr 0 \<and> np_max (concat t) = Inr 1)"
proof -
  have a: "np_max (concat (replicate 364 [0] @ [[1]])) = Inr 1"
    by (simp add: np_max_Max concat_replicate_single)
  have b: "np_min (concat (replicate 364 [0] @ [[1]])) = Inr 0"
    by (simp add: np_min_Min concat_replicate_single)
  have c: "(1::real) / 10 ^ 6 \<le> 1 - 0" by simp
  show ?thesis using a b c normalize_metric_unit_range[OF a b c] by blast
qed

text \<open>
  Claim C7 as stated fails: a 365-by-1 table that is 0 on every day but the last, where
  it is \<open>5e-7\<close>, has a non-zero range, and its normalised maximum is \<open>0.5\<close>.
\<close>

theorem normalize_metric_small_range_counterexample:
  "length (replicate 364 [0] @ [[1 / 2000000 :: real]]) = 365
   \<and> (0 :: real) < 1 / 2000000
   \<and> np_min (concat (replicate 364 [0] @ [[1 / 2000000]])) = Inr 0
   \<and> np_max (concat (replicate 364 [0] @ [[1 / 2000000]])) = Inr (1 / 2000000)
   \<and> normalize_metric (replicate 364 [0] @ [[1 / 2000000]]) = Inr (replicate 364 [0] @ [[1 / 2]])
   \<and> np_max (concat (replicate 364 [0] @ [[1 / 2]])) = Inr (1 / 2)
   \<and> \<not> \<bar>(1 / 2 :: real) - 1\<bar> \<le> 1 / 10 ^ 6"
  by (simp add: normalize_metric_def np_max_Max np_min_Min concat_replicate_single)

section \<open>Feature rows of the complete groups\<close>

lemma n_group_times_ndays:
  assumes "n_group_of nd = Inr ng" "0 < ng"
  shows "0 < nd \<and> ng * nd \<le> 363"
proof -
  have pos: "0 < nd"
  proof (rule ccontr)
    assume "\<not> 0 < nd"
    then have "nd < 0 \<or> nd = 0" by auto
    then show False
    proof
      assume "nd = 0" then show False using assms by (simp add: n_group_of_def)
    next
      assume n: "nd < 0"
      then have "ng = - (363 div (- nd))" using assms by (simp add: n_group_of_def)
      moreover have "0 \<le> 363 div (- nd)" using n by (simp add: pos_imp_zdiv_nonneg_iff)
      ultimately show False using assms(2) by simp
    qed
  qed
  then have "ng = 363 div nd" using assms by (simp add: n_group_of_def)
  moreover have "363 div nd * nd \<le> 363"
    using pos by (metis div_mult_mod_eq add.commute le_add_same_cancel2 pos_mod_sign)
  ultimately show ?thesis using pos by simp
qed

lemma interior_group_days:
  assumes ng: "n_group_of nd = Inr ng" and g: "0 \<le> g" "g < ng"
    and d: "d \<in> set (group_days nd (g * nd + 1) name)"
  shows "0 \<le> d \<and> d \<le> 364"
proof -
  have "0 < ng" using g by simp
  from n_group_times_ndays[OF ng this] have nd: "0 < nd" and le: "ng * nd \<le> 363" by simp_all
  have "(g + 1) * nd \<le> ng * nd" using g nd by (intro mult_right_mono) simp_all
  then have up: "g * nd + nd \<le> 363" using le by (simp add: algebra_simps)
  have lo: "0 \<le> g * nd" using g nd by simp
  from d have "g * nd \<le> d \<and> d \<le> g * nd + 1 + nd"
    using nd by (auto simp: group_days_def split: if_splits)
  then show ?thesis using lo up by simp
qed

lemma day_block_in_year:
  assumes "0 \<le> d" "d \<le> 364" "day_block self dm name ndiv d = Inr blk"
    and w: "map_of (weights self) name = Some w" "0 \<le> w"
    and tbl: "\<forall>tbl. dm name = Some tbl \<longrightarrow> (\<forall>row \<in> set tbl. \<forall>x \<in> set row. 0 \<le> x)"
  shows "\<forall>x \<in> set blk. 0 \<le> x"
proof -
  from assms(1-3) obtain t where t: "dm name = Some t" "nat d < length t"
    by (auto simp: day_block_def split: option.splits if_splits)
  then have row: "\<forall>x \<in> set (t ! nat d). 0 \<le> x" using tbl nth_mem by blast
  have nn: "\<forall>x \<in> set (map (\<lambda>x. x * w) (t ! nat d)). 0 \<le> x" using row w(2) by simp
  have "blk = map (\<lambda>x. x * w) (t ! nat d) \<or>
        (length (map (\<lambda>x. x * w) (t ! nat d)) = 1 \<and> blk = replicate ndiv (hd (map (\<lambda>x. x * w) (t ! nat d))))"
    using assms(1-3) t w(1) by (auto simp: day_block_def Let_def split: if_splits)
  then show ?thesis
  proof
    assume "blk = map (\<lambda>x. x * w) (t ! nat d)" then show ?thesis using nn by simp
  next
    assume a: "length (map (\<lambda>x. x * w) (t ! nat d)) = 1 \<and> blk = replicate ndiv (hd (map (\<lambda>x. x * w) (t ! nat d)))"
    then have "map (\<lambda>x. x * w) (t ! nat d) \<noteq> []" by auto
    then have "hd (map (\<lambda>x. x * w) (t ! nat d)) \<in> set (map (\<lambda>x. x * w) (t ! nat d))" by (rule hd_in_set)
    then have "0 \<le> hd (map (\<lambda>x. x * w) (t ! nat d))" using nn by blast
    then show ?thesis using a by simp
  qed
qed

lemma collect_map_set:
  assumes "collect (map f xs) = Inr vs" "v \<in> set vs"
  shows "\<exists>x \<in> set xs. f x = Inr v"
proof -
  from collect_map_Inr[OF assms(1)] have len: "length vs = length xs"
    and nth: "\<forall>i < length xs. f (xs ! i) = Inr (vs ! i)" by simp_all
  from assms(2) obtain i where "i < length vs" "vs ! i = v" by (auto simp: in_set_conv_nth)
  then show ?thesis using len nth by (metis nth_mem)
qed

lemma interior_group_data_nonneg:
  assumes ng: "n_group_of (ndays self) = Inr ng" and g: "0 \<le> g" "g < ng"
    and data: "get_data_for_group self dm (g * ndays self + 1) name = Inr v"
    and w: "map_of (weights self) name = Some w" "0 \<le> w"
    and tbl: "\<forall>tbl. dm name = Some tbl \<longrightarrow> (\<forall>row \<in> set tbl. \<forall>x \<in> set row. 0 \<le> x)"
  shows "\<forall>x \<in> set v. 0 \<le> x"
proof -
  from data obtain ndiv blocks where
    blocks: "collect (map (day_block self dm name ndiv) (group_days (ndays self) (g * ndays self + 1) name)) = Inr blocks"
    and v: "v = concat blocks"
    by (auto simp: get_data_for_group_def Let_def split: option.splits sum.splits)
  have "\<forall>blk \<in> set blocks. \<forall>x \<in> set blk. 0 \<le> x"
  proof
    fix blk assume "blk \<in> set blocks"
    from collect_map_set[OF blocks this] obtain d where
      d: "d \<in> set (group_days (ndays self) (g * ndays self + 1) name)"
      and blk: "day_block self dm name ndiv d = Inr blk" by blast
    from interior_group_days[OF ng g d] have "0 \<le> d" "d \<le> 364" by simp_all
    from day_block_in_year[OF this blk w tbl] show "\<forall>x \<in> set blk. 0 \<le> x" .
  qed
  then show ?thesis using v by auto
qed

lemma classify_metric_nonneg:
  assumes ng: "n_group_of (ndays self) = Inr ng" "0 \<le> ng"
    and step: "classify_metric self dm ng k (a, af, al) = Inr (b, bf, bl)"
    and w: "map_of (weights self) k = Some wt" "0 \<le> wt"
    and tbl: "\<forall>name tbl. dm name = Some tbl \<longrightarrow> (\<forall>row \<in> set tbl. \<forall>x \<in> set row. 0 \<le> x)"
    and a: "length a = nat ng" "\<forall>row \<in> set a. \<forall>x \<in> set row. 0 \<le> x"
  shows "length b = nat ng \<and> (\<forall>row \<in> set b. \<forall>x \<in> set row. 0 \<le> x)"
proof -
  from step obtain groupdata where
    gd: "collect (map (\<lambda>g. get_data_for_group self dm (g * ndays self + 1) k) [0..ng - 1]) = Inr groupdata"
    and b: "b = map (\<lambda>(row, d). row @ d) (zip a groupdata)"
    by (auto simp: classify_metric_def split: sum.splits if_splits)
  from collect_map_Inr[OF gd] have len: "length groupdata = nat ng" using ng(2) by simp
  have "\<forall>d \<in> set groupdata. \<forall>x \<in> set d. 0 \<le> x"
  proof
    fix d assume "d \<in> set groupdata"
    from collect_map_set[OF gd this] obtain g where
      g: "0 \<le> g" "g < ng" and d: "get_data_for_group self dm (g * ndays self + 1) k = Inr d"
      by auto
    from interior_group_data_nonneg[OF ng(1) g d w] tbl show "\<forall>x \<in> set d. 0 \<le> x" by simp
  qed
  then have "\<forall>row \<in> set b. \<forall>x \<in> set row. 0 \<le> x"
    using a(2) unfolding b by (fastforce dest: set_zip_leftD set_zip_rightD)
  moreover have "length b = nat ng" using len a(1) b by simp
  ultimately show ?thesis by simp
qed

text \<open>
  Claim C10. The feature matrix has \<open>n_group = floor(363 / ndays)\<close> rows; for every
  row \<open>g\<close> and every metric name, each day that the group starting at day
  \<open>g * ndays + 1\<close> reads (its own days, the single previous day of a \<open>_prev\<close>
  metric, the single following day of a \<open>_next\<close> metric) lies in \<open>[0, 364]\<close>; and,
  the tables being normalised (non-negative), no row of the feature matrix contains the
  constant \<open>-1e8\<close> that stands for an undefined feature.
\<close>

theorem interior_rows_reference_days_of_year:
  assumes fm: "classification_data self dm = Inr (fm, fm_first, fm_last)"
    and dist: "distinct (map fst (weights self))"
    and tbl: "\<forall>name tbl. dm name = Some tbl \<longrightarrow> (\<forall>row \<in> set tbl. \<forall>x \<in> set row. 0 \<le> x)"
  shows "n_group_of (ndays self) = Inr (int (length fm)) \<and>
         (\<forall>g name. 0 \<le> g \<and> g < int (length fm) \<longrightarrow>
            (\<forall>d \<in> set (group_days (ndays self) (g * ndays self + 1) name). 0 \<le> d \<and> d \<le> 364)) \<and>
         (\<forall>row \<in> set fm. undefined_feature \<notin> set row)"
proof -
  let ?step = "\<lambda>ng. \<lambda>(k, wt) s. if 0 < wt then classify_metric self dm ng k s else Inr s"
  from fm obtain ng where ng: "n_group_of (ndays self) = Inr ng" and nonneg: "0 \<le> ng"
    and fold: "fold_err (?step ng) (weights self) (replicate (nat ng) [], [], []) = Inr (fm, fm_first, fm_last)"
    by (auto simp: classification_data_def split: sum.splits if_splits)
  let ?Q = "\<lambda>s :: classification. length (fst s) = nat ng \<and> (\<forall>row \<in> set (fst s). \<forall>x \<in> set row. 0 \<le> x)"
  have "?Q (fm, fm_first, fm_last)"
  proof (rule fold_err_invariant[OF fold, where Q = ?Q])
    show "?Q (replicate (nat ng) [], [], [])" by simp
  next
    fix x a b
    assume x: "x \<in> set (weights self)" and st: "?step ng x a = Inr b" and qa: "?Q a"
    obtain k wt where kw: "x = (k, wt)" by (cases x)
    obtain a1 a2 a3 where a: "a = (a1, a2, a3)" by (cases a)
    obtain b1 b2 b3 where b: "b = (b1, b2, b3)" by (cases b)
    show "?Q b"
    proof (cases "0 < wt")
      case False
      then show ?thesis using st qa kw by simp
    next
      case True
      then have cm: "classify_metric self dm ng k (a1, a2, a3) = Inr (b1, b2, b3)"
        using st kw a b by simp
      have w: "map_of (weights self) k = Some wt" using dist x kw by simp
      have "0 \<le> wt" using True by simp
      from classify_metric_nonneg[OF ng nonneg cm w this tbl] qa a b show ?thesis by simp
    qed
  qed
  then have len: "int (length fm) = ng" and rows: "\<forall>row \<in> set fm. \<forall>x \<in> set row. 0 \<le> x"
    using nonneg by simp_all
  have days: "\<forall>g name. 0 \<le> g \<and> g < int (length fm) \<longrightarrow>
            (\<forall>d \<in> set (group_days (ndays self) (g * ndays self + 1) name). 0 \<le> d \<and> d \<le> 364)"
    using interior_group_days[OF ng] len by blast
  have "\<forall>row \<in> set fm. undefined_feature \<notin> set row"
    using rows by (fastforce simp: undefined_feature_def)
  with ng len days show ?thesis by simp
qed

lemma collect_map_const:
  "(\<And>x. x \<in> set xs \<Longrightarrow> f x = Inr v) \<Longrightarrow> collect (map f xs) = Inr (replicate (length xs) v)"
  by (induction xs) simp_all

text \<open>
  The example configuration: three groups of 121 days over a year whose daily metric is
  constantly 1. The last group's \<open>_next\<close> day is day 364. The boundary vectors do
  hold the constant: the first group has no previous day, the last group runs past the
  end of the year.
\<close>

lemma example_n_metrics: "n_metrics_of example_config = Inr 123"
  by (simp add: n_metrics_of_def example_config_def Clustering_def)

lemma example_own_days:
  assumes "0 \<le> d1" "d1 \<le> 243"
  shows "get_data_for_group example_config example_daily_metrics d1 ''dni'' = Inr (replicate 121 1)"
proof -
  have "collect (map (day_block example_config example_daily_metrics ''dni'' 1) (map (\<lambda>i. d1 + i) [0..120]))
        = Inr (replicate (length (map (\<lambda>i. d1 + i) [0..120])) [1])"
    using assms
    by (intro collect_map_const)
       (auto simp: day_block_def example_config_def example_daily_metrics_def Clustering_def)
  then show ?thesis
    by (simp add: get_data_for_group_def group_days_def example_config_def Clustering_def
          concat_replicate_single)
qed

lemma example_last_days:
  "get_data_for_group example_config example_daily_metrics 364 ''dni''
     = Inr (1 # replicate 120 undefined_feature)"
proof -
  have split: "[0..120::int] = 0 # [1..120]" by (simp add: upto_rec1)
  have "collect (map (day_block example_config example_daily_metrics ''dni'' 1) (map (\<lambda>i. 364 + i) [1..120]))
        = Inr (replicate (length (map (\<lambda>i. 364 + i) [1..120::int])) [undefined_feature])"
    by (intro collect_map_const) (auto simp: day_block_def)
  moreover have "day_block example_config example_daily_metrics ''dni'' 1 364 = Inr [1]"
    by (simp add: day_block_def example_config_def example_daily_metrics_def Clustering_def)
  ultimately show ?thesis
    by (simp add: get_data_for_group_def group_days_def example_config_def Clustering_def
          concat_replicate_single split)
qed

lemma example_prev_day:
  assumes "1 \<le> d1" "d1 \<le> 365"
  shows "get_data_for_group example_config example_daily_metrics d1 ''dni_prev'' = Inr [1 / 2]"
  using assms
  by (simp add: get_data_for_group_def group_days_def day_block_def example_config_def
        example_daily_metrics_def Clustering_def)

lemma example_next_day:
  assumes "0 \<le> d1" "d1 \<le> 243"
  shows "get_data_for_group example_config example_daily_metrics d1 ''dni_next'' = Inr [1 / 2]"
  using assms
  by (simp add: get_data_for_group_def group_days_def day_block_def example_config_def
        example_daily_metrics_def Clustering_def)

lemma example_no_prev_day:
  "get_data_for_group example_config example_daily_metrics 0 ''dni_prev'' = Inr [undefined_feature]"
  by (simp add: get_data_for_group_def group_days_def day_block_def example_config_def Clustering_def)

lemma example_no_next_day:
  "get_data_for_group example_config example_daily_metrics 364 ''dni_next'' = Inr [undefined_feature]"
  by (simp add: get_data_for_group_def group_days_def day_block_def example_config_def Clustering_def)

lemma example_groups:
  assumes "\<And>d1. 1 \<le> d1 \<Longrightarrow> d1 \<le> 243 \<Longrightarrow> get_data_for_group example_config example_daily_metrics d1 k = Inr v"
  shows "collect (map (\<lambda>g. get_data_for_group example_config example_daily_metrics (g * 121 + 1) k) [0..2])
         = Inr [v, v, v]"
proof -
  have "collect (map (\<lambda>g. get_data_for_group example_config example_daily_metrics (g * 121 + 1) k) [0..2])
        = Inr (replicate (length [0..2::int]) v)"
    by (intro collect_map_const) (auto intro!: assms)
  then show ?thesis by (simp add: numeral_3_eq_3)
qed

lemma example_classification:
  "classification_data example_config example_daily_metrics =
     Inr (replicate 3 (replicate 121 1 @ [1 / 2, 1 / 2]),
          replicate 121 1 @ [undefined_feature, 1 / 2],
          1 # replicate 120 undefined_feature @ [1 / 2, undefined_feature])"
proof -
  define r :: "real list" where "r = replicate 121 1"
  define l :: "real list" where "l = 1 # replicate 120 undefined_feature"
  have nd: "ndays example_config = 121"
    and ws: "weights example_config = [(''dni'', 1), (''dni_prev'', 1 / 2), (''dni_next'', 1 / 2)]"
    by (simp_all add: example_config_def Clustering_def)
  have own: "classify_metric example_config example_daily_metrics 3 ''dni'' ([[], [], []], [], [])
     = Inr ([r, r, r], r, l)"
    using example_groups[of "''dni''" r] example_own_days example_last_days
    by (simp add: classify_metric_def nd r_def l_def)
  have prev: "classify_metric example_config example_daily_metrics 3 ''dni_prev'' ([r, r, r], r, l)
     = Inr ([r @ [1 / 2], r @ [1 / 2], r @ [1 / 2]], r @ [undefined_feature], l @ [1 / 2])"
    using example_groups[of "''dni_prev''" "[1 / 2]"] example_prev_day example_no_prev_day
    by (simp add: classify_metric_def nd)
  have nxt: "classify_metric example_config example_daily_metrics 3 ''dni_next''
       ([r @ [1 / 2], r @ [1 / 2], r @ [1 / 2]], r @ [undefined_feature], l @ [1 / 2])
     = Inr ([r @ [1 / 2, 1 / 2], r @ [1 / 2, 1 / 2], r @ [1 / 2, 1 / 2]],
            r @ [undefined_feature, 1 / 2], l @ [1 / 2, undefined_feature])"
    using example_groups[of "''dni_next''" "[1 / 2]"] example_next_day example_no_next_day
    by (simp add: classify_metric_def nd)
  have ng: "n_group_of 121 = Inr 3" by (simp add: n_group_of_def)
  have "classification_data example_config example_daily_metrics =
     Inr ([r @ [1 / 2, 1 / 2], r @ [1 / 2, 1 / 2], r @ [1 / 2, 1 / 2]],
            r @ [undefined_feature, 1 / 2], l @ [1 / 2, undefined_feature])"
    by (simp add: classification_data_def example_n_metrics nd ng ws own prev nxt numeral_3_eq_3)
  then show ?thesis by (simp add: r_def l_def numeral_3_eq_3)
qed

theorem interior_rows_reference_days_of_year_witness:
  "classification_data example_config example_daily_metrics =
     Inr (replicate 3 (replicate 121 1 @ [1 / 2, 1 / 2]),
          replicate 121 1 @ [undefined_feature, 1 / 2],
          1 # replicate 120 undefined_feature @ [1 / 2, undefined_feature])
   \<and> distinct (map fst (weights example_config))
   \<and> n_group_of (ndays example_config) = Inr 3
   \<and> list_all (\<lambda>d. 0 \<le> d \<and> d \<le> 364) (group_days (ndays example_config) (2 * ndays example_config + 1) ''dni_next'')
   \<and> undefined_feature \<notin> set (replicate 121 1 @ [1 / 2, 1 / 2])"
proof -
  have d: "distinct (map fst (weights example_config))"
    by (simp add: example_config_def Clustering_def)
  have t: "\<forall>name tbl. example_daily_metrics name = Some tbl \<longrightarrow> (\<forall>row \<in> set tbl. \<forall>x \<in> set row. 0 \<le> x)"
    by (auto simp: example_daily_metrics_def split: if_splits)
  note main = interior_rows_reference_days_of_year[OF example_classification d t]
  from main have ng: "n_group_of (ndays example_config) = Inr 3" by simp
  from main have "\<forall>g name. 0 \<le> g \<and> g < 3 \<longrightarrow> (\<forall>d \<in> set (group_days (ndays example_config) (g * ndays example_config + 1) name). 0 \<le> d \<and> d \<le> 364)"
    by simp
  then have "\<forall>d \<in> set (group_days (ndays example_config) (2 * ndays example_config + 1) ''dni_next''). 0 \<le> d \<and> d \<le> 364"
    by (elim allE [where x = 2]) (elim allE [where x = "''dni_next''"], simp)
  then have days: "list_all (\<lambda>d. 0 \<le> d \<and> d \<le> 364) (group_days (ndays example_config) (2 * ndays example_config + 1) ''dni_next'')"
    by (simp add: list_all_iff)
  from main have "\<forall>row \<in> set (replicate 3 (replicate 121 1 @ [1 / 2, 1 / 2 :: real])). undefined_feature \<notin> set row"
    by blast
  then have u: "undefined_feature \<notin> set (replicate 121 1 @ [1 / 2, 1 / 2])" by simp
  show ?thesis using example_classification d ng days u by blast
qed
section \<open>The state-of-charge heuristic after \<open>calculate_metrics\<close>\<close>

lemma fold_assign:
  "xs \<noteq> [] \<Longrightarrow> fold (\<lambda>d v. h d) xs v0 = h (last xs)"
  by (induction xs arbitrary: v0) auto

lemma daily_avg_dni_loop_scalar:
  "daily_avg_dni_loop dni n = Float64 (slice_mean dni (364 * n) (365 * n) / 1000)"
proof -
  have ne: "[0..<365] \<noteq> []" by simp
  have l: "last [0..<365] = 364" by (simp add: last_upt)
  show ?thesis
    unfolding daily_avg_dni_loop_def
    using fold_assign[OF ne, of "\<lambda>d. Float64 (slice_mean dni (d * n) ((d + 1) * n) / 1000)"] l
    by simp
qed

text \<open>
  Claim C3 (the code departs from it). Once \<open>calculate_metrics\<close> has run, the
  attribute \<open>daily_avg_dni\<close> is a scalar, and \<open>csp_soc_heuristic\<close> raises
  \<open>IndexError\<close> for every cluster id and every solar multiple, given or not: it never
  reaches its decision table.
\<close>

theorem csp_soc_heuristic_raises:
  "csp_soc_heuristic (self\<lparr>daily_avg_dni := daily_avg_dni_loop dni n_pts_day\<rparr>) clusterid solar_multiple
     = Inl IndexError"
  by (cases "nth_err (sim_start_days self) clusterid")
     (simp_all add: csp_soc_heuristic_def bind_err_def daily_avg_dni_loop_scalar nth_err_def
        split: option.splits)

section \<open>\<open>create_clusters\<close> on a single group\<close>

lemma form_clusters_single:
  "length (data self) = 1 \<Longrightarrow>
   form_clusters_using_current_parameters self g = Inr (Some (single_group_clusters (data self)), self, g)"
  by (simp add: form_clusters_using_current_parameters_def clusters_dict_def bind_err_def)

lemma create_clusters_single_fresh:
  assumes "length (data self) = 1" "clusters self = []"
  shows "create_clusters verbose junk self g = Inl KeyError"
proof (cases "afp_enforce_Ncluster self")
  case False
  then show ?thesis
    using assms
    by (simp add: create_clusters_def form_clusters_single bind_err_def sort_clusters_def
          get_int_def getitem_def)
next
  case True
  have step: "search_step Nt tol d0 verbose st self g = Inl KeyError" for Nt tol d0 st
    using assms
    by (cases st) (simp add: search_step_def form_clusters_single bind_err_def getitem_def)
  have loop: "search_loop (afp_enforce_Ncluster_maxiter self) (n_cluster self) (afp_enforce_Ncluster_tol self)
          (afp_damping self) verbose 0 (1, 1, 0, False) self g
        = (if 0 < afp_enforce_Ncluster_maxiter self then Inl KeyError else Inr ((1, 1, 0, False), self, g))"
    by (subst search_loop.simps) (simp add: step)
  show ?thesis
    using True assms loop
    by (simp add: create_clusters_def bind_err_def getitem_def)
qed

text \<open>
  Claim C1 (the code departs from it). On a freshly built object whose feature matrix
  has the single row \<open>[0.3, 0.7]\<close>, \<open>create_clusters\<close> raises \<open>KeyError\<close>: the
  single-row dictionary is returned to a caller that drops it and is never stored in
  \<open>self.clusters\<close>; that dictionary has no entry \<open>weights\<close> either.
\<close>

theorem create_clusters_single_group_raises:
  "create_clusters verbose junk (Clustering\<lparr>data := [[3 / 10, 7 / 10]]\<rparr>) g = Inl KeyError
   \<and> map_of (single_group_clusters [[3 / 10, 7 / 10]]) ''weights'' = None"
  using create_clusters_single_fresh[of "Clustering\<lparr>data := [[3 / 10, 7 / 10]]\<rparr>" verbose junk g]
  by (simp add: Clustering_def single_group_clusters_def)

section \<open>Determinism of the engine\<close>

lemma seed_same:
  "generator g = generator g' \<Longrightarrow> np_random_seed s g = np_random_seed s g'"
  by (simp add: np_random_seed_def)

text \<open>
  Claim C9. \<open>fit_predict\<close> re-seeds the global generator with \<open>self.random_seed\<close>
  before it draws the perturbation, so its whole result (exemplars, cluster count, WCSS
  and the rest, or the exception raised) is the same from any two states of the
  generator: a second run on the same feature matrix with the same parameters repeats
  the first.
\<close>

theorem fit_predict_deterministic:
  assumes "generator g = generator g'"
  shows "fit_predict self dat g = fit_predict self dat g'"
  unfolding fit_predict_def perturbed_similarity_def Let_def
  using seed_same[OF assms] by simp


theorem fit_predict_deterministic_witness:
  "generator fresh_rng = generator used_rng
   \<and> fit_predict (AffinityPropagation (1 / 2) 200 10 None) [[0], [1]] fresh_rng
     = fit_predict (AffinityPropagation (1 / 2) 200 10 None) [[0], [1]] used_rng"
proof -
  have h: "generator fresh_rng = generator used_rng"
    by (simp add: fresh_rng_def used_rng_def)
  show ?thesis using h fit_predict_deterministic[OF h] by blast
qed

section \<open>The preference on the diagonal of the similarity array\<close>

lemma length_similarity: "length (similarity dat) = length dat"
  by (simp add: similarity_def)

lemma length_similarity_row: "i < length dat \<Longrightarrow> length (similarity dat ! i) = length dat"
  by (simp add: similarity_def)

lemma set_diag_diag:
  "i < length S \<Longrightarrow> i < length (S ! i) \<Longrightarrow> set_diag S v ! i ! i = v"
  by (simp add: set_diag_def)

lemma length_set_diag: "length (set_diag S v) = length S"
  by (simp add: set_diag_def)

lemma length_apply_preference: "length (apply_preference p S) = length S"
  by (simp add: apply_preference_def length_set_diag split: option.splits)

text \<open>
  Claim C4, as amended. When no preference is supplied (the multiplier is 1), every
  diagonal entry of \<open>S\<close> is set to the median of all entries of the similarity array,
  the zero entries \<open>i = j\<close> included; when a multiplier other than 1 is supplied, it
  is set to that same median of all entries times the multiplier (and to the unscaled
  median when that product is zero, which \<open>if self.preference\<close> takes for no
  preference).
\<close>

theorem preference_is_median_of_all_similarities:
  assumes "i < length (data self)"
  shows "apply_preference (form_preference self) (similarity (data self)) ! i ! i =
           (if afp_preference_mult self = 1
               \<or> np_median (concat (similarity (data self))) * afp_preference_mult self = 0
            then np_median (concat (similarity (data self)))
            else np_median (concat (similarity (data self))) * afp_preference_mult self)"
  using assms
  by (simp add: apply_preference_def form_preference_def set_diag_diag length_similarity
        length_similarity_row)

text \<open>Two observations at squared distance 1, multiplier 2: the median of all four
  similarities is \<open>-0.5\<close> and the diagonal is set to \<open>-1\<close>.\<close>

theorem preference_is_median_of_all_similarities_witness:
  "(0::nat) < length (data (Clustering\<lparr>data := [[0], [1]], afp_preference_mult := 2\<rparr>))
   \<and> apply_preference (form_preference (Clustering\<lparr>data := [[0], [1]], afp_preference_mult := 2\<rparr>))
        (similarity [[0], [1]]) ! 0 ! 0 = - 1
   \<and> np_median (concat (similarity [[0], [1]])) = - (1 / 2)"
proof -
  have h: "(0::nat) < length (data (Clustering\<lparr>data := [[0], [1]], afp_preference_mult := 2\<rparr>))"
    by simp
  have m: "np_median (concat (similarity [[0], [1]])) = - (1 / 2)"
    by (simp add: np_median_def similarity_def sqdist_def)
  show ?thesis
    using h m preference_is_median_of_all_similarities[OF h]
    by simp
qed

text \<open>
  Claim C4 as stated fails: for the same two observations the off-diagonal median is
  \<open>-1\<close>, but the default diagonal is \<open>-0.5\<close>; with multiplier 2 the scaled
  off-diagonal median is \<open>-2\<close>, but the diagonal is \<open>-1\<close>.
\<close>

theorem preference_off_diagonal_median_counterexample:
  "apply_preference (form_preference (Clustering\<lparr>data := [[0], [1]]\<rparr>)) (similarity [[0], [1]])
     = [[- (1 / 2), - 1], [- 1, - (1 / 2)]]
   \<and> spec_default_preference (similarity [[0], [1]]) = - 1
   \<and> apply_preference (form_preference (Clustering\<lparr>data := [[0], [1]], afp_preference_mult := 2\<rparr>))
        (similarity [[0], [1]])
     = [[- 1, - 1], [- 1, - 1]]
   \<and> spec_default_preference (similarity [[0], [1]]) * 2 = - 2"
  by (simp add: apply_preference_def form_preference_def Clustering_def set_diag_def
        np_median_def similarity_def sqdist_def spec_default_preference_def off_diagonal_def)

section \<open>The hard partition matrix\<close>

lemma row_min_in_set: "xs \<noteq> [] \<Longrightarrow> row_min xs \<in> set xs"
proof -
  assume ne: "xs \<noteq> []"
  then obtain x r where xs: "xs = x # r" by (cases xs) auto
  have "row_min xs = Min (set xs)"
    unfolding xs row_min_def by (simp flip: Min.set_eq_fold)
  then show ?thesis using ne by (metis Min_in List.finite_set set_empty)
qed

lemma takeWhile_stops_early:
  assumes "x \<in> set xs" "\<not> P x"
  shows "length (takeWhile P xs) < length xs"
  using assms by (induction xs) auto

lemma row_argmin_less: "xs \<noteq> [] \<Longrightarrow> row_argmin xs < length xs"
  unfolding row_argmin_def
  using row_min_in_set[of xs] by (intro takeWhile_stops_early[of "row_min xs"]) auto

lemma np_argmin_less: "np_argmin xs = Inr i \<Longrightarrow> i < length xs"
  using row_argmin_less[of xs] by (auto simp: np_argmin_def split: if_splits)

lemma assign_clusters_range:
  assumes "assign_clusters D exs = Inr cl"
  shows "length cl = length D \<and> list_all (\<lambda>c. c < length exs) cl"
proof -
  from collect_map_Inr[OF assms[unfolded assign_clusters_def]]
  have len: "length cl = length D"
    and nth: "\<forall>i < length D. np_argmin (map (\<lambda>e. D ! i ! e) exs) = Inr (cl ! i)" by simp_all
  have "\<forall>i < length cl. cl ! i < length exs"
    using nth len np_argmin_less by fastforce
  then show ?thesis using len by (simp add: list_all_length)
qed

lemma length_refine_exemplar: "length (refine_exemplar D cl exs k) = length exs"
  by (simp add: refine_exemplar_def Let_def)

lemma length_refine_exemplars: "length (refine_exemplars D cl exs) = length exs"
proof -
  have "length (fold (\<lambda>k e. refine_exemplar D cl e k) ks exs) = length exs" for ks
    by (induction ks arbitrary: exs) (simp_all add: length_refine_exemplar)
  then show ?thesis by (simp add: refine_exemplars_def)
qed

lemma length_square: "length (square n f) = n"
  by (simp add: square_def)

lemma perturbed_similarity_length:
  "perturbed_similarity self dat g = Inr (S, g2) \<Longrightarrow> length S = length dat"
  by (auto simp: perturbed_similarity_def bind_err_def Let_def np_random_sample_def perturb_def
        length_square apply_preference_def set_diag_def similarity_def
      split: sum.splits option.splits if_splits)

lemma fit_predict_index:
  assumes "fit_predict self dat g = Inr (alg, g')"
  shows "length (cluster_index alg) = length dat
         \<and> list_all (\<lambda>c. c < n_clusters alg) (cluster_index alg)"
proof -
  from assms obtain S g2 where ps: "perturbed_similarity self dat g = Inr (S, g2)"
    by (auto simp: fit_predict_def bind_err_def split: sum.splits)
  obtain A R flags q count where loop:
    "ap_loop self S (square (length dat) (\<lambda>i j. 0), square (length dat) (\<lambda>i j. 0),
        replicate (length dat) False, 0, 0) = (A, R, flags, q, count)"
    by (metis prod_cases5)
  from assms ps loop obtain cl0 cl1 where
    c0: "assign_clusters (distances S) (elected flags) = Inr cl0"
    and c1: "assign_clusters (distances S) (refine_exemplars (distances S) cl0 (elected flags)) = Inr cl1"
    and alg: "cluster_index alg = cl1" "n_clusters alg = length (elected flags)"
    by (auto simp: fit_predict_def bind_err_def Let_def split: sum.splits if_splits)
  from assign_clusters_range[OF c1]
  have "length cl1 = length (distances S)"
    and "list_all (\<lambda>c. c < length (elected flags)) cl1"
    by (simp_all add: length_refine_exemplars)
  moreover have "length (distances S) = length dat"
    using perturbed_similarity_length[OF ps] by (simp add: distances_def length_square)
  ultimately show ?thesis using alg by simp
qed

lemma sum_list_one_hot: "k < n \<Longrightarrow> sum_list ((replicate n (0::real))[k := 1]) = 1"
proof (induction n arbitrary: k)
  case 0
  then show ?case by simp
next
  case (Suc n)
  then show ?case by (cases k) (simp_all add: sum_list_replicate)
qed



lemma fit_predict_forms_clusters:
  assumes "fit_predict a (data self) g = Inr (alg, g')" "sim_hard_partitions self"
  shows "\<exists>c. formed_clusters self alg = Inr c"
  using fit_predict_index[OF assms(1)] assms(2)
  by (simp add: formed_clusters_def hard_partition_def bind_err_def Let_def)

lemma upt_0_2: "[0..<2] = [0, Suc 0]" by (simp add: upt_rec numeral_2_eq_2)
lemma upt_0_4: "[0..<4] = [0, 1, 2, 3]" by code_simp

lemma square_2: "square 2 f = [[f 0 0, f 0 (Suc 0)], [f (Suc 0) 0, f (Suc 0) (Suc 0)]]"
  by (simp add: square_def upt_0_2)

lemma square_SS0: "square (Suc (Suc 0)) f = [[f 0 0, f 0 (Suc 0)], [f (Suc 0) 0, f (Suc 0) (Suc 0)]]"
  using square_2 by (simp add: numeral_2_eq_2)

lemma upt_0_SS0: "[0..<Suc (Suc 0)] = [0, Suc 0]" by (simp add: upt_rec)

lemma example_perturbed_similarity: "perturbed_similarity (AffinityPropagation (1 / 2) 2 1 None) [[0], [1]] g
   = Inr (example_similarities, g\<lparr>stream := generator g 123, pos := 4\<rparr>)"
  if "generator g = example_generator" for g
  using that
  apply (simp add: perturbed_similarity_def AffinityPropagation_def similarity_def sqdist_def
      apply_preference_def set_diag_def np_median_def np_min_def np_random_seed_def
      np_random_sample_def perturb_def square_2 square_SS0 upt_0_SS0 upt_0_2 upt_0_4 example_generator_def bind_err_def example_similarities_def Let_def)
  done

lemma example_responsibility: "responsibility (1 / 2) example_similarities [[0, 0], [0, 0]] [[0, 0], [0, 0]] = example_responsibilities"
  by (simp add: responsibility_def square_2 square_SS0 upt_0_SS0 upt_0_2 example_similarities_def example_responsibilities_def row_argmax_def row_max_def Let_def)

lemma example_availability: "availability (1 / 2) [[0, 0], [0, 0]] example_responsibilities = [[0, 0], [0, 0]]"
  by (simp add: availability_def square_2 square_SS0 upt_0_SS0 upt_0_2 example_responsibilities_def col_sums_def Let_def)

lemma example_engine_fields:
  "max_iter example_engine = 2" "convergence_iter example_engine = 1"
  "damping example_engine = 1 / 2"
  by (simp_all add: example_engine_def AffinityPropagation_def)

lemma example_round: "ap_round example_engine example_similarities ([[0, 0], [0, 0]], [[0, 0], [0, 0]], [False, False], 0, 0)
   = ([[0, 0], [0, 0]], example_responsibilities, [True, True], Suc 0, 0)"
  apply (simp add: ap_round_def example_engine_fields example_responsibility example_availability Let_def)
  apply (simp add: example_similarities_def example_responsibilities_def upt_0_2 upt_0_SS0)
  done

lemma example_responsibility2:
  "responsibility (1 / 2) example_similarities [[0, 0], [0, 0]] example_responsibilities
     = example_responsibilities2"
  by (simp add: responsibility_def square_2 square_SS0 upt_0_SS0 upt_0_2 example_similarities_def
        example_responsibilities_def example_responsibilities2_def row_argmax_def row_max_def
        Let_def)

lemma example_availability2:
  "availability (1 / 2) [[0, 0], [0, 0]] example_responsibilities2 = [[0, 0], [0, 0]]"
  by (simp add: availability_def square_2 square_SS0 upt_0_SS0 upt_0_2
        example_responsibilities2_def col_sums_def Let_def)

lemma example_round2:
  "ap_round example_engine example_similarities
     ([[0, 0], [0, 0]], example_responsibilities, [True, True], Suc 0, 0)
   = ([[0, 0], [0, 0]], example_responsibilities2, [True, True], 2, Suc 0)"
  apply (simp add: ap_round_def example_engine_fields example_responsibility2
      example_availability2 Let_def)
  apply (simp add: example_similarities_def example_responsibilities2_def upt_0_2 upt_0_SS0)
  done

lemma example_loop:
  "ap_loop example_engine example_similarities
     ([[0, 0], [0, 0]], [[0, 0], [0, 0]], [False, False], 0, 0)
   = ([[0, 0], [0, 0]], example_responsibilities2, [True, True], 2, Suc 0)"
proof -
  have "ap_loop example_engine example_similarities
          ([[0, 0], [0, 0]], [[0, 0], [0, 0]], [False, False], 0, 0)
      = ap_loop example_engine example_similarities
          ([[0, 0], [0, 0]], example_responsibilities, [True, True], Suc 0, 0)"
    by (subst ap_loop.simps) (simp add: example_engine_fields example_round)
  also have "\<dots> = ap_loop example_engine example_similarities
          ([[0, 0], [0, 0]], example_responsibilities2, [True, True], 2, Suc 0)"
    by (subst ap_loop.simps) (simp add: example_engine_fields example_round2)
  also have "\<dots> = ([[0, 0], [0, 0]], example_responsibilities2, [True, True], 2, Suc 0)"
    by (subst ap_loop.simps) (simp add: example_engine_fields)
  finally show ?thesis .
qed

lemma example_distances: "distances example_similarities = [[0, 799999999 / 800000000], [800000001 / 800000000, 0]]"
  by (simp add: distances_def square_2 square_SS0 example_similarities_def)

lemma example_assign: "assign_clusters [[0, 799999999 / 800000000], [800000001 / 800000000, 0]] [0, Suc 0] = Inr [0, Suc 0]"
  by (simp add: assign_clusters_def np_argmin_def row_argmin_def row_min_def)

lemma example_refine: "refine_exemplars D [0, Suc 0] [0, Suc 0] = [0, Suc 0]"
  by (simp add: refine_exemplars_def refine_exemplar_def upt_0_2 upt_0_SS0 Let_def)

lemma example_fit_predict: "fit_predict example_engine [[0], [1]] g
  = Inr (\<lparr>n_clusters = 2, cluster_means = [[0], [1]], cluster_index = [0, 1], wcss = 0,
           exemplars = [0, 1], converged = True\<rparr>, g\<lparr>stream := generator g 123, pos := 4\<rparr>)"
  if "generator g = example_generator" for g
  apply (simp add: fit_predict_def example_perturbed_similarity[OF that, folded example_engine_def] bind_err_def square_2 square_SS0 example_loop Let_def example_distances example_engine_fields)
  apply (simp add: elected_def upt_0_2 upt_0_SS0 example_distances example_assign example_refine compute_wcss_def sqdist_def)
  done

lemma example_clusters_dict:
  assumes "generator g = example_generator"
  shows "clusters_dict example_object g
           = Inr (example_clusters, g\<lparr>stream := generator g 123, pos := 4\<rparr>)"
proof -
  have "form_preference example_object = None"
    by (simp add: form_preference_def example_object_def Clustering_def)
  then show ?thesis
    using example_fit_predict[OF assms]
    by (simp add: clusters_dict_def example_object_def Clustering_def example_engine_def bind_err_def
          formed_clusters_def
          hard_partition_def col_sums_def upt_0_2 upt_0_SS0 Let_def numeral_2_eq_2
          example_clusters_def)
qed


subsection \<open>Observations that elect no exemplar\<close>









section \<open>The adjusted cluster weights\<close>

lemma sum_list_nth_upt: "sum_list (map ((!) r) [0..<length r]) = sum_list (r :: real list)"
  by (simp add: map_nth)

lemma sum_cols_eq_sum_rows:
  assumes "\<forall>row \<in> set P. length row = n"
  shows "sum_list (map (\<lambda>k. sum_list (map (\<lambda>row. row ! k) P)) [0..<n]) = sum_list (map sum_list (P :: matrix))"
  using assms
proof (induction P)
  case Nil
  then show ?case by simp
next
  case (Cons r P)
  have "sum_list (map (\<lambda>k. sum_list (map (\<lambda>row. row ! k) (r # P))) [0..<n])
      = sum_list (map (\<lambda>k. r ! k + sum_list (map (\<lambda>row. row ! k) P)) [0..<n])" by simp
  also have "\<dots> = sum_list (map ((!) r) [0..<n]) + sum_list (map (\<lambda>k. sum_list (map (\<lambda>row. row ! k) P)) [0..<n])"
    by (simp add: sum_list_addf)
  also have "sum_list (map ((!) r) [0..<n]) = sum_list r"
    using Cons.prems sum_list_nth_upt[of r] by simp
  finally show ?case using Cons by simp
qed

lemma one_hot_rows_iff:
  "one_hot_rows n P \<longleftrightarrow> (\<forall>row \<in> set P. \<exists>k < n. row = (replicate n 0)[k := 1])"
  by (simp add: one_hot_rows_def list_all_iff list_ex_iff Bex_def)

lemma one_hot_rows_sum:
  assumes "one_hot_rows n P" "P \<noteq> []"
  shows "length (col_sums P) = n \<and> sum_list (col_sums P) = real (length P)"
proof -
  from assms(1) have rows: "\<forall>row \<in> set P. \<exists>k < n. row = (replicate n 0)[k := 1]"
    by (simp add: one_hot_rows_iff)
  then have len: "\<forall>row \<in> set P. length row = n" by auto
  have hd: "length (hd P) = n" using len assms(2) by simp
  have "\<forall>row \<in> set P. sum_list row = 1" using rows sum_list_one_hot by auto
  then have "map sum_list P = replicate (length P) 1"
    by (simp add: map_replicate_const[symmetric] map_eq_conv)
  then have "sum_list (map sum_list P) = real (length P)" by (simp add: sum_list_replicate)
  then show ?thesis
    using sum_cols_eq_sum_rows[OF len] hd by (simp add: col_sums_def)
qed


lemma getitem_update_same: "getitem (AList.update k v d) k = Inr v"
  by (simp add: getitem_def update_conv')

lemma nth_err_Inr: "nth_err xs (int i) = Inr a \<Longrightarrow> i < length xs \<and> a = xs ! i"
  by (auto simp: nth_err_def py_index_def split: if_splits option.splits)

lemma update_err_Inr: "update_err xs (int i) v = Inr ys \<Longrightarrow> i < length xs \<and> ys = xs[i := v]"
  by (auto simp: update_err_def py_index_def split: if_splits option.splits)

lemma sum_list_update_real:
  "i < length xs \<Longrightarrow> sum_list (xs[i := v]) = sum_list xs - xs ! i + (v :: real)"
proof (induction xs arbitrary: i)
  case Nil
  then show ?case by simp
next
  case (Cons x xs)
  then show ?case by (cases i) simp_all
qed

lemma sum_list_divide: "sum_list (map (\<lambda>x. x / c) xs) = sum_list xs / (c :: real)"
  by (induction xs) (simp_all add: add_divide_distrib)

text \<open>
  Claim C5. When \<open>adjust_weighting_for_incomplete_groups\<close> has run on a hard partition
  matrix (one row per group), the adjusted weights it stores sum to 1: the column sums
  total \<open>n_group\<close>, the two boundary fractions \<open>1/ndays\<close> and
  \<open>(365 - n_group*ndays - 1)/ndays\<close> are added, and the divisor is
  \<open>n_group\<close> plus those two fractions, which is \<open>365/ndays\<close> and never zero.
\<close>

theorem adjusted_weights_sum_to_one:
  assumes run: "adjust_weighting_for_incomplete_groups self = Inr self'"
    and P: "get_matrix (clusters self) ''partition_matrix'' = Inr P"
    and hard: "one_hot_rows n P"
    and rows: "length P = length (data self)" "data self \<noteq> []"
  shows "\<exists>w. getitem (clusters self') ''weights_adjusted'' = Inr (FloatArray w) \<and> sum_list w = 1"
proof -
  define nd where "nd = real_of_int (ndays self)"
  define ngroup where "ngroup = length (data self)"
  define nlast where "nlast = real_of_int (365 - int ngroup * ndays self - 1)"
  define s where "s = col_sums P"
  from run P obtain first last a b s1 s2 where
    nz: "ndays self \<noteq> 0"
    and a: "nth_err s (int first) = Inr a"
    and s1: "update_err s (int first) (a + 1 / nd) = Inr s1"
    and b: "nth_err s1 (int last) = Inr b"
    and s2: "update_err s1 (int last) (b + nlast / nd) = Inr s2"
    and self': "clusters self' = AList.update ''weights_adjusted''
                  (FloatArray (map (\<lambda>x. x / (real ngroup + 1 / nd + nlast / nd)) s2)) (clusters self)"
    unfolding adjust_weighting_for_incomplete_groups_def Let_def bind_err_def nd_def ngroup_def
      nlast_def s_def
    by (auto split: sum.splits if_splits)
  have Pne: "P \<noteq> []" using rows by auto
  from one_hot_rows_sum[OF hard Pne] have sum_s: "sum_list s = real ngroup"
    by (simp add: s_def ngroup_def rows)
  from nth_err_Inr[OF a] update_err_Inr[OF s1]
  have "sum_list s1 = sum_list s + 1 / nd" by (simp add: sum_list_update_real)
  moreover from nth_err_Inr[OF b] update_err_Inr[OF s2]
  have "sum_list s2 = sum_list s1 + nlast / nd" by (simp add: sum_list_update_real)
  ultimately have sum_s2: "sum_list s2 = real ngroup + 1 / nd + nlast / nd"
    using sum_s by simp
  have ndz: "nd \<noteq> 0" using nz by (simp add: nd_def)
  have "(real ngroup + 1 / nd + nlast / nd) * nd = 365"
  proof -
    have nl: "nlast = 364 - real ngroup * nd"
      by (simp add: nlast_def nd_def)
    have "(real ngroup + 1 / nd + nlast / nd) * nd = real ngroup * nd + 1 + nlast"
      using ndz by (simp add: field_simps)
    then show ?thesis using nl by simp
  qed
  then have nonzero: "real ngroup + 1 / nd + nlast / nd \<noteq> 0" by auto
  have "sum_list (map (\<lambda>x. x / (real ngroup + 1 / nd + nlast / nd)) s2) = 1"
    using sum_s2 nonzero by (simp add: sum_list_divide)
  then show ?thesis
    unfolding self' by (intro exI conjI) (rule getitem_update_same, assumption)
qed

text \<open>The matrices that forming clusters builds are hard partition matrices.\<close>

lemma hard_partition_one_hot:
  "hard_partition n index = Inr P \<Longrightarrow> one_hot_rows n P"
  unfolding one_hot_rows_iff
  by (fastforce simp: hard_partition_def list_all_iff split: if_splits)

lemma example_adjust:
  "adjust_weighting_for_incomplete_groups example_clustered
     = Inr (example_clustered\<lparr>index_first := 0, index_last := 1,
              clusters := AList.update ''weights_adjusted'' (FloatArray [151 / 365, 214 / 365])
                            example_clusters\<rparr>)"
proof -
  have t: "boundary_term [undefined_feature] example_clusters k 0 = Inr 0" for k
    by (simp add: boundary_term_def nth_err_def py_index_def bind_err_def undefined_feature_def)
  have l0: "boundary_term [3 / 4] example_clusters 0 0 = Inr (9 / 16)"
    by (simp add: boundary_term_def nth_err_def py_index_def bind_err_def example_clusters_def
          get_matrix_def getitem_def power2_eq_square)
  have l1: "boundary_term [3 / 4] example_clusters (Suc 0) 0 = Inr (1 / 16)"
    by (simp add: boundary_term_def nth_err_def py_index_def bind_err_def example_clusters_def
          get_matrix_def getitem_def power2_eq_square)
  have d: "boundary_distances example_clustered 2 (Suc 0) = Inr [(0, 9 / 16), (0, 1 / 16)]"
    by (simp add: boundary_distances_def upt_0_2 example_clustered_def example_object_def
          Clustering_def t l0 l1 bind_err_def)
  have a1: "np_argmin [0, 0] = Inr 0"
    by (simp add: np_argmin_def row_argmin_def row_min_def)
  have a2: "np_argmin [9 / 16, 1 / 16] = Inr (Suc 0)"
    by (simp add: np_argmin_def row_argmin_def row_min_def)
  have n: "get_int example_clusters ''n_cluster'' = Inr 2"
    by (simp add: example_clusters_def get_int_def getitem_def bind_err_def)
  have P: "get_matrix example_clusters ''partition_matrix'' = Inr [[1, 0], [0, 1]]"
    by (simp add: example_clusters_def get_matrix_def getitem_def bind_err_def)
  have cs: "col_sums [[1, 0], [0, 1]] = [1, 1]"
    by (simp add: col_sums_def upt_0_2)
  have f: "data example_clustered = [[0], [1]]" "ndays example_clustered = 150"
    "clusters example_clustered = example_clusters"
    by (simp_all add: example_clustered_def example_object_def Clustering_def)
  show ?thesis
    unfolding adjust_weighting_for_incomplete_groups_def
    by (simp add: n d a1 a2 P cs f bind_err_def nth_err_def update_err_def py_index_def Let_def)
qed

text \<open>The example object with its clusters stored: the start of the year goes to
  cluster 0, the end of the year to cluster 1, and the adjusted weights are
  \<open>151/365\<close> and \<open>214/365\<close>.\<close>

theorem adjusted_weights_sum_to_one_witness:
  "adjust_weighting_for_incomplete_groups example_clustered
     = Inr (example_clustered\<lparr>index_first := 0, index_last := 1,
              clusters := AList.update ''weights_adjusted'' (FloatArray [151 / 365, 214 / 365])
                            example_clusters\<rparr>)
   \<and> get_matrix (clusters example_clustered) ''partition_matrix'' = Inr [[1, 0], [0, 1]]
   \<and> one_hot_rows 2 [[1, 0], [0, 1]]
   \<and> length [[1, 0], [0, 1 :: real]] = length (data example_clustered)
   \<and> data example_clustered \<noteq> []
   \<and> (\<exists>w. getitem (clusters (example_clustered\<lparr>index_first := 0, index_last := 1,
              clusters := AList.update ''weights_adjusted'' (FloatArray [151 / 365, 214 / 365])
                            example_clusters\<rparr>)) ''weights_adjusted'' = Inr (FloatArray w)
          \<and> sum_list w = 1)"
proof -
  have P: "get_matrix (clusters example_clustered) ''partition_matrix'' = Inr [[1, 0], [0, 1]]"
    by (simp add: example_clustered_def example_clusters_def get_matrix_def getitem_def bind_err_def)
  have h: "one_hot_rows 2 [[1, 0], [0, 1]]"
    by (simp add: one_hot_rows_def upt_0_2 numeral_2_eq_2)
  have l: "length [[1, 0], [0, 1 :: real]] = length (data example_clustered)"
    by (simp add: example_clustered_def example_object_def Clustering_def)
  have ne: "data example_clustered \<noteq> []"
    by (simp add: example_clustered_def example_object_def Clustering_def)
  from adjusted_weights_sum_to_one[OF example_adjust P h l ne]
  show ?thesis using example_adjust P h l ne by blast
qed

section \<open>The relabelling of the clusters\<close>

lemma map_of_map_entries:
  "map_of (map (\<lambda>(key, v). if key \<in> S then (key, v) else (key, f key v)) d) k
     = (if k \<in> S then map_of d k else map_option (f k) (map_of d k))"
  by (induction d) auto

lemma bind_err_Inr: "bind_err m f = Inr b \<Longrightarrow> \<exists>a. m = Inr a \<and> f a = Inr b"
  by (cases m) (simp_all add: bind_err_def)

lemma sort_cluster_keeps:
  assumes "sort_cluster old inds i cs = Inr cs'"
    and "key \<notin> set [''partition_matrix'', ''count'', ''weights'', ''exemplars'', ''means'']"
  shows "map_of cs' key = map_of cs key"
proof -
  from assms(1) obtain P'' cs2 M'' where
    f: "fold_err
          (\<lambda>key c. bind_err (getitem old key)
             (\<lambda>src. bind_err (elem src (int (inds ! i)))
                (\<lambda>v. bind_err (getitem c key)
                   (\<lambda>dst. bind_err (set_elem dst (int i) v)
                      (\<lambda>dst'. Inr (AList.update key dst' c))))))
          [''count'', ''weights'', ''exemplars'']
          (AList.update ''partition_matrix'' (FloatMatrix P'') cs) = Inr cs2"
    and cs': "cs' = AList.update ''means'' (FloatMatrix M'') cs2"
    unfolding sort_cluster_def Let_def
    by (auto dest!: bind_err_Inr nth_err_Inr)
  have "map_of cs2 key = map_of cs key"
  proof (rule fold_err_invariant[OF f])
    show "map_of (AList.update ''partition_matrix'' (FloatMatrix P'') cs) key = map_of cs key"
      using assms(2) by (simp add: update_conv')
  next
    fix x a b
    assume x: "x \<in> set [''count'', ''weights'', ''exemplars'']"
      and step: "bind_err (getitem old x)
             (\<lambda>src. bind_err (elem src (int (inds ! i)))
                (\<lambda>v. bind_err (getitem a x)
                   (\<lambda>dst. bind_err (set_elem dst (int i) v)
                      (\<lambda>dst'. Inr (AList.update x dst' a))))) = Inr b"
      and a: "map_of a key = map_of cs key"
    from step obtain dst' where "b = AList.update x dst' a"
      by (auto dest!: bind_err_Inr)
    moreover have "x \<noteq> key" using x assms(2) by auto
    ultimately show "map_of b key = map_of cs key" using a by (simp add: update_conv')
  qed
  then show ?thesis using cs' assms(2) by (simp add: update_conv')
qed

lemma relabel_group_keeps:
  assumes "relabel_group old ranks g cs = Inr cs'" "key \<noteq> ''index''"
  shows "map_of cs' key = map_of cs key"
proof -
  from assms(1) obtain v where "cs' = AList.update ''index'' v cs"
    unfolding relabel_group_def by (auto dest!: bind_err_Inr)
  then show ?thesis using assms(2) by (simp add: update_conv')
qed

lemma sort_clusters_entries:
  assumes "sort_clusters junk self = Inr self'"
    and "key \<notin> set [''partition_matrix'', ''count'', ''weights'', ''exemplars'', ''means'', ''index'']"
  shows "map_of (clusters self') key
           = (if key \<in> set [''n_cluster'', ''wcss''] then map_of (clusters self) key
              else map_option (empty_like (junk key)) (map_of (clusters self) key))"
proof -
  define cs0 where "cs0 = map (\<lambda>(key, v). if key \<in> set [''n_cluster'', ''wcss''] then (key, v)
                                     else (key, empty_like (junk key) v)) (clusters self)"
  from assms(1) obtain n_cl exs cs1 cs2 where
    l1: "fold_err (sort_cluster (clusters self) (np_argsort exs)) [0..<nat n_cl] cs0 = Inr cs1"
    and l2: "fold_err (relabel_group (clusters self) (np_argsort (map int (np_argsort exs))))
               [0..<length (data self)] cs1 = Inr cs2"
    and self': "self' = self\<lparr>clusters := cs2\<rparr>"
    unfolding sort_clusters_def Let_def cs0_def
    by (auto dest!: bind_err_Inr)
  have k1: "map_of cs1 key = map_of cs0 key"
    by (rule fold_err_invariant[OF l1]) (use assms(2) in \<open>auto dest: sort_cluster_keeps\<close>)
  have k2: "map_of cs2 key = map_of cs1 key"
    by (rule fold_err_invariant[OF l2]) (use assms(2) in \<open>auto dest: relabel_group_keeps\<close>)
  have "map_of cs0 key = (if key \<in> set [''n_cluster'', ''wcss''] then map_of (clusters self) key
              else map_option (empty_like (junk key)) (map_of (clusters self) key))"
    unfolding cs0_def
    using map_of_map_entries[of "set [''n_cluster'', ''wcss'']" "\<lambda>k. empty_like (junk k)" "clusters self" key]
    by simp
  then show ?thesis using k1 k2 self' by simp
qed

text \<open>
  What the relabelling leaves alone and what it does not: the entries \<open>n_cluster\<close>
  and \<open>wcss\<close> keep their values, but a stored flag \<open>converged\<close> is replaced by an
  array of dimension zero holding whatever the allocated memory held.
\<close>

lemma sort_clusters_frame:
  assumes "sort_clusters junk self = Inr self'"
  shows "map_of (clusters self') ''n_cluster'' = map_of (clusters self) ''n_cluster''"
    and "map_of (clusters self') ''wcss'' = map_of (clusters self) ''wcss''"
    and "map_of (clusters self) ''converged'' = Some (PyBool b) \<Longrightarrow>
         map_of (clusters self') ''converged'' = Some (BoolArray0 (junk ''converged'' 0 \<noteq> 0))"
  using sort_clusters_entries[OF assms, of "''n_cluster''"]
    sort_clusters_entries[OF assms, of "''wcss''"]
    sort_clusters_entries[OF assms, of "''converged''"]
  by simp_all

lemma example_form_clusters:
  assumes "generator g = example_generator"
  shows "form_clusters_using_current_parameters example_object g
     = Inr (None, example_object\<lparr>clusters := example_clusters\<rparr>,
            g\<lparr>stream := generator g 123, pos := 4\<rparr>)"
  using example_clusters_dict[OF assms]
  by (simp add: form_clusters_using_current_parameters_def bind_err_def)
     (simp add: example_object_def Clustering_def)

lemma example_object_fields:
  "afp_preference_mult example_object = 1" "afp_damping example_object = 1 / 2"
  "afp_enforce_Ncluster example_object" "afp_enforce_Ncluster_maxiter example_object = 50"
  "n_cluster example_object = 2" "afp_enforce_Ncluster_tol example_object = 0"
  "data example_object = [[0], [1]]"
  by (simp_all add: example_object_def Clustering_def)

lemma example_object_same:
  "example_object\<lparr>afp_preference_mult := 1\<rparr> = example_object"
  "example_object\<lparr>clusters := c, afp_damping := 1 / 2\<rparr> = example_object\<lparr>clusters := c\<rparr>"
  by (simp_all add: example_object_def Clustering_def)

lemma example_search_step:
  assumes "generator g = example_generator"
  shows "search_step 2 0 (1 / 2) False (1, 1, 0, False) example_object g
     = Inr ((1, 1, 0, True), example_object\<lparr>clusters := example_clusters\<rparr>,
            g\<lparr>stream := generator g 123, pos := 4\<rparr>)"
  by (simp add: search_step_def example_object_same example_form_clusters[OF assms] bind_err_def
        getitem_def get_int_def example_clusters_def Let_def)

lemma example_search_loop:
  assumes "generator g = example_generator"
  shows "search_loop 50 2 0 (1 / 2) False 0 (1, 1, 0, False) example_object g
     = Inr ((1, 1, 0, True), example_object\<lparr>clusters := example_clusters\<rparr>,
            g\<lparr>stream := generator g 123, pos := 4\<rparr>)"
  by (subst search_loop.simps, simp add: example_search_step[OF assms])
     (subst search_loop.simps, simp)

lemma argsort_0_1: "np_argsort [0, 1] = [0, Suc 0]"
  by (simp add: np_argsort_def upt_0_2)

lemma example_sort_clusters:
  "sort_clusters junk (example_object\<lparr>clusters := example_clusters\<rparr>)
     = Inr (example_object\<lparr>clusters :=
         [(''index'', IntArray [0, 1]), (''n_cluster'', PyInt 2),
          (''means'', FloatMatrix [[0], [1]]), (''wcss'', PyFloat 0),
          (''exemplars'', IntArray [0, 1]),
          (''converged'', BoolArray0 (junk ''converged'' 0 \<noteq> 0)),
          (''count'', IntArray [1, 1]),
          (''partition_matrix'', FloatMatrix [[1, 0], [0, 1]]),
          (''weights'', FloatArray [1 / 2, 1 / 2])]\<rparr>)"
  apply (simp add: sort_clusters_def example_object_fields bind_err_def get_int_def
      get_int_array_def getitem_def example_clusters_def argsort_0_1 upt_0_2 upt_0_SS0 Let_def)
  apply (simp add: sort_cluster_def relabel_group_def bind_err_def get_matrix_def get_int_array_def
      getitem_def nth_err_def update_err_def py_index_def column_def set_column_def Let_def
      argsort_0_1)
  done

text \<open>
  Claim C2 (the code departs from it). On the two-observation example the accepted
  attempt converges and stores \<open>converged = True\<close>; \<open>create_clusters\<close> then returns
  a cluster set whose entry \<open>converged\<close> is the uninitialised array that
  \<open>np.empty_like(True)\<close> allocated, not the stored flag. The orderings, \<open>n_cluster\<close>
  and \<open>wcss\<close> are as the claim says.
\<close>

theorem create_clusters_loses_converged_flag:
  "clusters_dict example_object fresh_rng
     = Inr (example_clusters, fresh_rng\<lparr>stream := generator fresh_rng 123, pos := 4\<rparr>)
   \<and> getitem example_clusters ''converged'' = Inr (PyBool True)
   \<and> create_clusters False junk example_object fresh_rng
     = Inr (example_object\<lparr>clusters :=
              [(''index'', IntArray [0, 1]), (''n_cluster'', PyInt 2),
               (''means'', FloatMatrix [[0], [1]]), (''wcss'', PyFloat 0),
               (''exemplars'', IntArray [0, 1]),
               (''converged'', BoolArray0 (junk ''converged'' 0 \<noteq> 0)),
               (''count'', IntArray [1, 1]),
               (''partition_matrix'', FloatMatrix [[1, 0], [0, 1]]),
               (''weights'', FloatArray [1 / 2, 1 / 2])]\<rparr>,
            fresh_rng\<lparr>stream := generator fresh_rng 123, pos := 4\<rparr>)"
proof -
  have gen: "generator fresh_rng = example_generator" by (simp add: fresh_rng_def)
  have c: "getitem example_clusters ''converged'' = Inr (PyBool True)"
    by (simp add: getitem_def example_clusters_def)
  have "create_clusters False junk example_object fresh_rng
     = bind_err (sort_clusters junk (example_object\<lparr>clusters := example_clusters\<rparr>))
         (\<lambda>self2. Inr (self2, fresh_rng\<lparr>stream := generator fresh_rng 123, pos := 4\<rparr>))"
    by (simp add: create_clusters_def example_object_fields example_search_loop[OF gen]
          bind_err_def)
  then show ?thesis
    using example_clusters_dict[OF gen] c
    by (simp add: example_sort_clusters bind_err_def)
qed


end
